theory Spec2Isabelle
  imports Complex_Main "HOL-Library.Sublist" "HOL-Library.Word"
begin

section \<open>JavaScript values and runtime services\<close>

text \<open>
  The handlers are TypeScript. Strings are modelled as \<^typ>\<open>string\<close>; an optional
  property (\<open>field?: string\<close>, an unset environment variable, \<open>request.ip\<close>) is a
  \<^typ>\<open>string option\<close>. A JavaScript number is a double: the model keeps the
  non-finite values apart and represents a finite one by the rational it denotes.
\<close>

datatype js_number = NaN | Infinity | NegInfinity | Finite rat

text \<open>
  Built-ins of the JavaScript runtime that the source calls but does not define:
  \<open>parseFloat\<close>, the number-to-string conversion of a template literal, and
  \<open>crypto.subtle.digest('SHA-256', _)\<close> on the encoded string, which yields the
  digest's bytes or throws (\<open>Inl\<close> the exception's text), as it does in a runtime
  without Web Crypto. They are parameters of the model.
\<close>

record js_runtime =
  parseFloat :: "string \<Rightarrow> js_number"
  number_toString :: "js_number \<Rightarrow> string"
  subtle_digest_sha256 :: "string \<Rightarrow> string + 8 word list"

text \<open>Truthiness of a string and of an optional string (\<open>!x\<close> in the source).\<close>

definition falsy :: "string \<Rightarrow> bool" where
  "falsy s = (s = [])"

definition falsy_opt :: "string option \<Rightarrow> bool" where
  "falsy_opt v = (case v of None \<Rightarrow> True | Some s \<Rightarrow> falsy s)"

text \<open>\<open>a || b\<close> on optional strings, and \<open>a || 'literal'\<close>.\<close>

definition or_opt :: "string option \<Rightarrow> string option \<Rightarrow> string option" where
  "or_opt a b = (if falsy_opt a then b else a)"

definition or_default :: "string option \<Rightarrow> string \<Rightarrow> string" where
  "or_default a d = (case a of None \<Rightarrow> d | Some s \<Rightarrow> if falsy s then d else s)"

section \<open>Webhook verifier (src/frontend/src/lib/mpesa/webhook.ts)\<close>

record MPESAWebhookPayload =
  TransactionType :: string
  TransID :: string
  TransTime :: string
  TransAmount :: string
  BusinessShortCode :: string
  BillRefNumber :: "string option"
  InvoiceNumber :: "string option"
  OrgAccountBalance :: string
  ThirdPartyTransID :: "string option"
  MSISDN :: string
  FirstName :: "string option"
  MiddleName :: "string option"
  LastName :: "string option"

record VerificationResult =
  v_success :: bool
  v_message :: string
  v_county :: "string option"
  v_amount :: "js_number option"
  v_transactionId :: "string option"
  v_phoneNumber :: "string option"

definition verification_failure :: "string \<Rightarrow> VerificationResult" where
  "verification_failure msg =
     \<lparr>v_success = False, v_message = msg, v_county = None, v_amount = None,
      v_transactionId = None, v_phoneNumber = None\<rparr>"

definition requiredFields :: "(string \<times> (MPESAWebhookPayload \<Rightarrow> string)) list" where
  "requiredFields =
     [(''TransactionType'', TransactionType), (''TransID'', TransID),
      (''TransTime'', TransTime), (''TransAmount'', TransAmount),
      (''BusinessShortCode'', BusinessShortCode), (''MSISDN'', MSISDN)]"

text \<open>The \<open>for (const field of requiredFields)\<close> loop: the first falsy field, if any.\<close>

fun first_missing ::
  "(string \<times> (MPESAWebhookPayload \<Rightarrow> string)) list \<Rightarrow> MPESAWebhookPayload \<Rightarrow> string option" where
  "first_missing [] payload = None"
| "first_missing ((field, get) # rest) payload =
     (if falsy (get payload) then Some field else first_missing rest payload)"

text \<open>
  \<open>verifyWebhookPayload\<close>. The second argument is the environment variable
  \<open>NEXT_PUBLIC_MPESA_SHORTCODE\<close>. With a payload of the declared type nothing in the
  \<open>try\<close> block throws, so the \<open>catch\<close> branch has no counterpart.
\<close>

definition verifyWebhookPayload ::
  "js_runtime \<Rightarrow> string option \<Rightarrow> MPESAWebhookPayload \<Rightarrow> VerificationResult" where
  "verifyWebhookPayload rt shortcode_env payload =
     (case first_missing requiredFields payload of
        Some field \<Rightarrow> verification_failure (''Missing required field: '' @ field)
      | None \<Rightarrow>
          let amount = parseFloat rt (TransAmount payload) in
          if amount \<noteq> Finite 1 then
            verification_failure
              (''Invalid amount: '' @ number_toString rt amount
                 @ ''. Pledge amount must be exactly KES 1.00'')
          else
            let expectedShortcode = or_default shortcode_env ''123456'' in
            if BusinessShortCode payload \<noteq> expectedShortcode then
              verification_failure
                (''Invalid business shortcode: '' @ BusinessShortCode payload)
            else
              let county = or_opt (BillRefNumber payload) (InvoiceNumber payload) in
              if falsy_opt county then verification_failure ''Missing county information''
              else
                \<lparr>v_success = True, v_message = ''Webhook payload verified'',
                 v_county = county, v_amount = Some amount,
                 v_transactionId = Some (TransID payload),
                 v_phoneNumber = Some (MSISDN payload)\<rparr>)"

section \<open>The persistence collaborator\<close>

text \<open>
  The handlers talk to a Postgres database through the supabase-js client. A call
  resolves to \<open>{ data, error }\<close> or rejects with an exception. \<open>PostgrestError\<close> keeps
  the two properties of the error object that the source reads.
\<close>

record PostgrestError =
  err_code :: string
  err_message :: string

datatype 'a reply = Data 'a | Err PostgrestError | Thrown string

text \<open>
  An infrastructure failure of one call is an input of the model: \<open>None\<close> means the
  store processes the call, \<open>Some (ErrorResult e)\<close> that the call resolves with the
  error \<open>e\<close> and \<open>Some (Exception x)\<close> that it throws; a failed call leaves the tables
  as they were.
\<close>

datatype fault = ErrorResult PostgrestError | Exception string

text \<open>Timestamps are milliseconds since the Unix epoch.\<close>

type_synonym timestamp = int

record mpesa_transaction_row =
  mt_transaction_id :: string
  mt_transaction_time :: string
  mt_amount :: string
  mt_msisdn :: string
  mt_first_name :: string
  mt_last_name :: string
  mt_raw_payload :: MPESAWebhookPayload

text \<open>
  The columns of \<open>pledges\<close> as the schema migration declares them
  (\<open>src/unnamed/part_012\<close>): \<open>id\<close>, \<open>phone TEXT NOT NULL\<close>,
  \<open>county TEXT NOT NULL\<close>, \<open>amount DECIMAL(10, 2) DEFAULT 1.00\<close>,
  \<open>payment_method TEXT DEFAULT 'mpesa'\<close>, \<open>created_at TIMESTAMPTZ DEFAULT now()\<close>,
  \<open>transaction_id TEXT UNIQUE\<close> and \<open>verified BOOLEAN DEFAULT false\<close>.
\<close>

record pledge_row =
  pl_id :: string
  pl_phone :: string
  pl_county :: string
  pl_amount :: rat
  pl_payment_method :: string
  pl_created_at :: timestamp
  pl_transaction_id :: "string option"
  pl_verified :: bool

record verified_user_row =
  vu_user_id :: "string option"
  vu_phone :: string
  vu_verified_at :: timestamp
  vu_county :: "string option"
  vu_transaction_id :: string

record meme_entry_row =
  me_id :: string
  me_url :: string
  me_user :: string
  me_week :: int
  me_votes :: int
  me_created_at :: timestamp
  me_request_id :: string

record meme_vote_row =
  mv_user :: string
  mv_meme_id :: string
  mv_week :: int
  mv_created_at :: timestamp
  mv_request_id :: string

record rate_limit_row =
  rl_ip :: string
  rl_endpoint :: string
  rl_created_at :: timestamp

record database =
  mpesa_transactions :: "mpesa_transaction_row list"
  pledges :: "pledge_row list"
  verified_users :: "verified_user_row list"
  meme_entries :: "meme_entry_row list"
  meme_votes :: "meme_vote_row list"
  rate_limits :: "rate_limit_row list"

definition empty_database :: database where
  "empty_database =
     \<lparr>mpesa_transactions = [], pledges = [], verified_users = [], meme_entries = [],
      meme_votes = [], rate_limits = []\<rparr>"

text \<open>
  \<open>.single()\<close> of supabase-js: the row when the query selects exactly one, otherwise
  the error PGRST116 and no data.
\<close>

definition no_single_row :: PostgrestError where
  "no_single_row =
     \<lparr>err_code = ''PGRST116'',
      err_message = ''JSON object requested, multiple (or no) rows returned''\<rparr>"

definition single :: "fault option \<Rightarrow> 'a list \<Rightarrow> 'a reply" where
  "single f rows =
     (case f of
        Some (ErrorResult e) \<Rightarrow> Err e
      | Some (Exception x) \<Rightarrow> Thrown x
      | None \<Rightarrow> (case rows of [row] \<Rightarrow> Data row | _ \<Rightarrow> Err no_single_row))"

subsection \<open>Requests and the client\<close>

text \<open>
  The object literal of an insert or upsert, property by property. A property whose
  value is \<open>undefined\<close> is sent as \<open>JNull\<close>; an instant is kept as its timestamp
  rather than as the ISO string \<open>toISOString()\<close> makes of it.
\<close>

datatype json_value = JString string | JTime timestamp | JNull

type_synonym json_object = "(string \<times> json_value) list"

definition json_opt :: "string option \<Rightarrow> json_value" where
  "json_opt v = (case v of None \<Rightarrow> JNull | Some s \<Rightarrow> JString s)"

text \<open>
  \<open>processWebhookPayload\<close> receives its client as the argument \<open>supabase\<close>. Of
  the client it uses \<open>from('pledges').insert(o).select('id').single()\<close>, which
  resolves to the id of the new row, and \<open>from('verified_users').upsert(rows)\<close>. A
  client is modelled by these two operations on the state of the store behind it.
\<close>

record 'st supabase_client =
  pledges_insert_select_id :: "json_object \<Rightarrow> 'st \<Rightarrow> string reply \<times> 'st"
  verified_users_upsert_rows :: "json_object list \<Rightarrow> 'st \<Rightarrow> unit reply \<times> 'st"

subsection \<open>The tables of the repository\<close>

text \<open>The text of a column in a request, if the request gives one.\<close>

fun text_of :: "json_object \<Rightarrow> string \<Rightarrow> string option" where
  "text_of [] column = None"
| "text_of ((name, v) # rest) column =
     (if name = column then (case v of JString s \<Rightarrow> Some s | _ \<Rightarrow> None)
      else text_of rest column)"

fun time_of :: "json_object \<Rightarrow> string \<Rightarrow> timestamp option" where
  "time_of [] column = None"
| "time_of ((name, v) # rest) column =
     (if name = column then (case v of JTime t \<Rightarrow> Some t | _ \<Rightarrow> None)
      else time_of rest column)"

definition quoted :: "string \<Rightarrow> string" where
  "quoted s = [CHR 0x22] @ s @ [CHR 0x22]"

text \<open>
  The errors Postgres answers an insert with: a column the table does not have
  (42703), a missing value for a \<open>NOT NULL\<close> column (23502) and a repeated value
  in a \<open>UNIQUE\<close> column (23505).
\<close>

definition undefined_column :: "string \<Rightarrow> string \<Rightarrow> PostgrestError" where
  "undefined_column c t =
     \<lparr>err_code = ''42703'',
      err_message = ''column '' @ quoted c @ '' of relation '' @ quoted t
        @ '' does not exist''\<rparr>"

definition not_null_violation :: "string \<Rightarrow> string \<Rightarrow> PostgrestError" where
  "not_null_violation c t =
     \<lparr>err_code = ''23502'',
      err_message = ''null value in column '' @ quoted c @ '' of relation '' @ quoted t
        @ '' violates not-null constraint''\<rparr>"

definition unique_violation :: "string \<Rightarrow> PostgrestError" where
  "unique_violation c =
     \<lparr>err_code = ''23505'',
      err_message = ''duplicate key value violates unique constraint '' @ quoted c\<rparr>"

definition pledges_columns :: "string list" where
  "pledges_columns =
     [''id'', ''phone'', ''county'', ''amount'', ''payment_method'', ''created_at'',
      ''transaction_id'', ''verified'']"

text \<open>
  An insert into \<open>pledges\<close> as declared by the migration. Postgres refuses a request
  that names a column the table does not have (a PostgREST that consults its schema
  cache first answers with its own code PGRST204 instead of 42703; neither is a
  unique violation), then one without \<open>phone\<close> or \<open>county\<close>, then one whose
  \<open>transaction_id\<close> is already stored (the constraint of
  \<open>transaction_id TEXT UNIQUE\<close> gets the name \<open>pledges_transaction_id_key\<close>).
  Otherwise the row is appended with the id the store chooses, \<open>created_at\<close> from
  the request or the store's clock, and the defaults of \<open>amount\<close>,
  \<open>payment_method\<close> and \<open>verified\<close>, which no request of the webhook names.
\<close>

definition pledges_insert ::
  "fault option \<Rightarrow> string \<Rightarrow> timestamp \<Rightarrow> json_object \<Rightarrow> database
     \<Rightarrow> string reply \<times> database" where
  "pledges_insert f new_id now obj db =
     (case f of
        Some (ErrorResult e) \<Rightarrow> (Err e, db)
      | Some (Exception x) \<Rightarrow> (Thrown x, db)
      | None \<Rightarrow>
          (case filter (\<lambda>c. c \<notin> set pledges_columns) (map fst obj) of
             c # cs \<Rightarrow> (Err (undefined_column c ''pledges''), db)
           | [] \<Rightarrow>
               (case text_of obj ''phone'' of
                  None \<Rightarrow> (Err (not_null_violation ''phone'' ''pledges''), db)
                | Some phone \<Rightarrow>
                    (case text_of obj ''county'' of
                       None \<Rightarrow> (Err (not_null_violation ''county'' ''pledges''), db)
                     | Some county \<Rightarrow>
                         if text_of obj ''transaction_id'' \<noteq> None
                            \<and> text_of obj ''transaction_id''
                                \<in> set (map pl_transaction_id (pledges db))
                         then (Err (unique_violation ''pledges_transaction_id_key''), db)
                         else
                           (Data new_id,
                            db\<lparr>pledges := pledges db @
                                 [\<lparr>pl_id = new_id, pl_phone = phone, pl_county = county,
                                   pl_amount = 1, pl_payment_method = ''mpesa'',
                                   pl_created_at =
                                     (case time_of obj ''created_at'' of
                                        Some t \<Rightarrow> t | None \<Rightarrow> now),
                                   pl_transaction_id = text_of obj ''transaction_id'',
                                   pl_verified = False\<rparr>]\<rparr>)))))"

text \<open>
  Modelled from the spec: no migration in the sources declares \<open>verified_users\<close>.
  The spec keys it by the phone digest ("phone digest \<open>\<rightarrow>\<close> {verified_at timestamp,
  county, last transaction id}", "Created/overwritten (upsert)"): an upsert overwrites
  the columns it is given in the row with that key, or appends the row. A row without
  the key is refused, and then none of the rows of the call is written.
\<close>

definition verified_users_upsert_row ::
  "timestamp \<Rightarrow> json_object \<Rightarrow> verified_user_row list
     \<Rightarrow> PostgrestError + verified_user_row list" where
  "verified_users_upsert_row now obj table =
     (case text_of obj ''phone'' of
        None \<Rightarrow> Inl (not_null_violation ''phone'' ''verified_users'')
      | Some phone \<Rightarrow>
          let verified_at = (case time_of obj ''verified_at'' of
                               Some t \<Rightarrow> t | None \<Rightarrow> now);
              county = text_of obj ''county'';
              transaction_id = (case text_of obj ''transaction_id'' of
                                  Some t \<Rightarrow> t | None \<Rightarrow> [])
          in
          if phone \<in> set (map vu_phone table)
          then Inr (map (\<lambda>r. if vu_phone r = phone
                              then r\<lparr>vu_verified_at := verified_at, vu_county := county,
                                     vu_transaction_id := transaction_id\<rparr>
                              else r) table)
          else Inr (table @
                 [\<lparr>vu_user_id = None, vu_phone = phone, vu_verified_at = verified_at,
                   vu_county = county, vu_transaction_id = transaction_id\<rparr>]))"

fun verified_users_upsert_all ::
  "timestamp \<Rightarrow> json_object list \<Rightarrow> verified_user_row list
     \<Rightarrow> PostgrestError + verified_user_row list" where
  "verified_users_upsert_all now [] table = Inr table"
| "verified_users_upsert_all now (obj # rest) table =
     (case verified_users_upsert_row now obj table of
        Inl e \<Rightarrow> Inl e
      | Inr table1 \<Rightarrow> verified_users_upsert_all now rest table1)"

definition verified_users_upsert ::
  "fault option \<Rightarrow> timestamp \<Rightarrow> json_object list \<Rightarrow> database
     \<Rightarrow> unit reply \<times> database" where
  "verified_users_upsert f now rows db =
     (case f of
        Some (ErrorResult e) \<Rightarrow> (Err e, db)
      | Some (Exception x) \<Rightarrow> (Thrown x, db)
      | None \<Rightarrow>
          (case verified_users_upsert_all now rows (verified_users db) of
             Inl e \<Rightarrow> (Err e, db)
           | Inr table \<Rightarrow> (Data (), db\<lparr>verified_users := table\<rparr>)))"


section \<open>Logging\<close>

text \<open>
  \<open>logger.info/warn/error(message, data)\<close> appends an entry to the logger's store. A
  function of the model returns the entries it wrote, in order; \<open>data\<close> is the object
  literal passed to the logger, property by property.
\<close>

datatype LogLevel = debug | info | warn | error

datatype log_value =
    StrVal "string option"
  | ErrVal PostgrestError
  | ExnVal string
  | PayloadVal MPESAWebhookPayload

record LogEntry =
  level :: LogLevel
  log_message :: string
  data :: "(string \<times> log_value) list"

definition log_entry :: "LogLevel \<Rightarrow> string \<Rightarrow> (string \<times> log_value) list \<Rightarrow> LogEntry" where
  "log_entry l m d = \<lparr>level = l, log_message = m, data = d\<rparr>"

section \<open>Pledge recorder (src/frontend/src/lib/mpesa/webhook.ts)\<close>

subsection \<open>\<open>hashPhoneNumber\<close>\<close>

definition hex_digit :: "nat \<Rightarrow> char" where
  "hex_digit d = ''0123456789abcdef'' ! d"

text \<open>\<open>n.toString(16)\<close> for a non-negative integer.\<close>

fun hex_of_nat :: "nat \<Rightarrow> string" where
  "hex_of_nat n =
     (if n < 16 then [hex_digit n] else hex_of_nat (n div 16) @ [hex_digit (n mod 16)])"

text \<open>\<open>b.toString(16).padStart(2, '0')\<close> for a byte.\<close>

definition byte_hex :: "8 word \<Rightarrow> string" where
  "byte_hex b = [hex_digit (unat b div 16), hex_digit (unat b mod 16)]"

text \<open>
  A \<^typ>\<open>char\<close> is a byte: for the ASCII digits of a phone number the UTF-8 bytes
  that \<open>TextEncoder\<close> produces and the code units that \<open>charCodeAt\<close> reads
  coincide. The fallback loop \<open>hash = ((hash << 5) - hash) + char; hash = hash & hash\<close>: each
  round ends with a conversion to a 32-bit integer, so the accumulator is a 32-bit word
  and the arithmetic wraps.
\<close>

definition fallback_step :: "32 word \<Rightarrow> char \<Rightarrow> 32 word" where
  "fallback_step hash c = (push_bit 5 hash - hash) + of_nat (of_char c)"

definition fallback_hash :: "string \<Rightarrow> 32 word" where
  "fallback_hash phoneNumber = foldl fallback_step 0 phoneNumber"

definition hashPhoneNumber :: "js_runtime \<Rightarrow> string \<Rightarrow> string \<times> LogEntry list" where
  "hashPhoneNumber rt phoneNumber =
     (case subtle_digest_sha256 rt phoneNumber of
        Inr hashArray \<Rightarrow> (concat (map byte_hex hashArray), [])
      | Inl exn \<Rightarrow>
          (''fallback_'' @ hex_of_nat (nat \<bar>sint (fallback_hash phoneNumber)\<bar>),
           [log_entry error ''Error hashing phone number'' [(''error'', ExnVal exn)]]))"

subsection \<open>\<open>processWebhookPayload\<close>\<close>

record ProcessResult =
  r_success :: bool
  r_message :: string
  r_id :: "string option"

definition internal_server_error ::
  "string \<Rightarrow> MPESAWebhookPayload \<Rightarrow> ProcessResult \<times> LogEntry list" where
  "internal_server_error exn payload =
     (\<lparr>r_success = False, r_message = ''Internal server error'', r_id = None\<rparr>,
      [log_entry error ''Error processing webhook payload''
         [(''error'', ExnVal exn), (''payload'', PayloadVal payload)]])"

text \<open>
  The result, the state of the store afterwards and the log entries written. The
  arguments are the runtime, the environment variable \<open>NEXT_PUBLIC_MPESA_SHORTCODE\<close>,
  the clock (both \<open>new Date()\<close> of one call are taken to read the same instant), the
  \<open>supabase\<close> client with the state of its store, and the payload. The non-null
  assertion \<open>phoneNumber!\<close> is the \<open>Some\<close> case; without a phone number the
  fallback of \<open>hashPhoneNumber\<close> would throw on \<open>phoneNumber.length\<close>, which the
  outer \<open>catch\<close> turns into the internal error.
\<close>

definition processWebhookPayload ::
  "js_runtime \<Rightarrow> string option \<Rightarrow> timestamp \<Rightarrow> 'st supabase_client \<Rightarrow> 'st
     \<Rightarrow> MPESAWebhookPayload \<Rightarrow> ProcessResult \<times> 'st \<times> LogEntry list" where
  "processWebhookPayload rt shortcode_env now supabase st payload =
     (let verification = verifyWebhookPayload rt shortcode_env payload in
      if \<not> v_success verification then
        (\<lparr>r_success = False, r_message = v_message verification, r_id = None\<rparr>, st, [])
      else
        let county = v_county verification;
            transactionId = v_transactionId verification
        in
        case v_phoneNumber verification of
          None \<Rightarrow>
            (fst (internal_server_error ''TypeError'' payload), st,
             snd (internal_server_error ''TypeError'' payload))
        | Some phoneNumber \<Rightarrow>
            (let (phoneHash, hash_log) = hashPhoneNumber rt phoneNumber in
             case pledges_insert_select_id supabase
                    [(''phone_hash'', JString phoneHash),
                     (''county'', json_opt county),
                     (''transaction_id'', json_opt transactionId),
                     (''created_at'', JTime now)] st of
               (Thrown exn, st1) \<Rightarrow>
                 (fst (internal_server_error exn payload), st1,
                  hash_log @ snd (internal_server_error exn payload))
             | (Err err, st1) \<Rightarrow>
                 if err_code err = ''23505'' \<and> sublist ''transaction_id'' (err_message err)
                 then
                   (\<lparr>r_success = True,
                     r_message = ''Duplicate transaction, already processed'',
                     r_id = None\<rparr>, st1, hash_log)
                 else
                   (\<lparr>r_success = False,
                     r_message = ''Failed to create pledge: '' @ err_message err,
                     r_id = None\<rparr>, st1,
                    hash_log @
                    [log_entry error ''Error creating pledge''
                       [(''error'', ErrVal err), (''transactionId'', StrVal transactionId)]])
             | (Data new_id, st1) \<Rightarrow>
                 (case verified_users_upsert_rows supabase
                         [[(''phone'', JString phoneHash),
                           (''verified_at'', JTime now),
                           (''county'', json_opt county),
                           (''transaction_id'', JString (TransID payload))]] st1 of
                    (Thrown exn, st2) \<Rightarrow>
                      (fst (internal_server_error exn payload), st2,
                       hash_log @ snd (internal_server_error exn payload))
                  | (Err userError, st2) \<Rightarrow>
                      (\<lparr>r_success = True, r_message = ''Pledge created successfully'',
                        r_id = Some new_id\<rparr>, st2,
                       hash_log @
                       [log_entry warn ''Error updating verified users''
                          [(''error'', ErrVal userError),
                           (''phone'', StrVal (Some phoneNumber))]])
                  | (Data u, st2) \<Rightarrow>
                      (\<lparr>r_success = True, r_message = ''Pledge created successfully'',
                        r_id = Some new_id\<rparr>, st2, hash_log))))"

subsection \<open>The client of the repository's store\<close>

text \<open>
  What the store answers during one call: its clock, the id it gives a new pledge, and
  the failures of the two calls.
\<close>

record webhook_call =
  wc_now :: timestamp
  wc_new_id :: string
  wc_insert_fault :: "fault option"
  wc_upsert_fault :: "fault option"

definition repository_client :: "webhook_call \<Rightarrow> database supabase_client" where
  "repository_client io =
     \<lparr>pledges_insert_select_id =
        pledges_insert (wc_insert_fault io) (wc_new_id io) (wc_now io),
      verified_users_upsert_rows = verified_users_upsert (wc_upsert_fault io) (wc_now io)\<rparr>"

subsection \<open>A client that records its calls\<close>

text \<open>
  To observe what \<open>processWebhookPayload\<close> sends, a client whose state is the list
  of the calls it has received; its answers are given by two functions of the request.
\<close>

datatype store_call = PledgesInsert json_object | VerifiedUsersUpsert "json_object list"

definition recording_client ::
  "(json_object \<Rightarrow> string reply) \<Rightarrow> (json_object list \<Rightarrow> unit reply)
     \<Rightarrow> store_call list supabase_client" where
  "recording_client insert_reply upsert_reply =
     \<lparr>pledges_insert_select_id =
        (\<lambda>obj calls. (insert_reply obj, calls @ [PledgesInsert obj])),
      verified_users_upsert_rows =
        (\<lambda>rows calls. (upsert_reply rows, calls @ [VerifiedUsersUpsert rows]))\<rparr>"

text \<open>
  The two requests of \<open>processWebhookPayload\<close> for a verified payload, given the
  digest: of the payload they hold the county and the transaction id.
\<close>

definition pledge_request :: "string \<Rightarrow> timestamp \<Rightarrow> MPESAWebhookPayload \<Rightarrow> json_object" where
  "pledge_request phoneHash now p =
     [(''phone_hash'', JString phoneHash),
      (''county'', json_opt (or_opt (BillRefNumber p) (InvoiceNumber p))),
      (''transaction_id'', JString (TransID p)),
      (''created_at'', JTime now)]"

definition verified_user_request ::
  "string \<Rightarrow> timestamp \<Rightarrow> MPESAWebhookPayload \<Rightarrow> json_object" where
  "verified_user_request phoneHash now p =
     [(''phone'', JString phoneHash),
      (''verified_at'', JTime now),
      (''county'', json_opt (or_opt (BillRefNumber p) (InvoiceNumber p))),
      (''transaction_id'', JString (TransID p))]"

subsection \<open>\<open>processWebhook\<close>\<close>



subsection \<open>Observations on log entries\<close>



section \<open>The meme contest routes: common parts\<close>

text \<open>
  The vote route (its text follows the Tailwind configuration in
  \<open>src/frontend/tailwind.config.js\<close>) and the submission route
  (\<open>src/frontend/src/app/api/memes/submit/route.ts\<close>) each define \<open>POST\<close>, \<open>getWeekNumber\<close>, \<open>checkUserVerification\<close>, \<open>checkRateLimit\<close> and
  \<open>incrementRateLimitCounter\<close>. The model keeps the vote route's functions under the
  source's names and gives the submission route's the suffix \<open>_submit\<close>. The calls of
  the logger in the two routes write no table and decide no branch; they are left out.
\<close>

subsection \<open>\<open>parseInt\<close>\<close>

text \<open>
  \<open>parseInt(s)\<close> without a radix, on ASCII input: leading white space is skipped, a
  sign is read, the prefix \<open>0x\<close> selects radix 16, and the longest run of digits is the
  value; with no digit the result is \<open>NaN\<close>, here \<open>None\<close>.
\<close>

definition is_whitespace :: "char \<Rightarrow> bool" where
  "is_whitespace c = (c \<in> set [CHR '' '', CHR 0x09, CHR 0x0A, CHR 0x0B, CHR 0x0C, CHR 0x0D])"

definition digit_of :: "char \<Rightarrow> nat option" where
  "digit_of c =
     (let n = (of_char c :: nat) in
      if 48 \<le> n \<and> n \<le> 57 then Some (n - 48)
      else if 97 \<le> n \<and> n \<le> 122 then Some (n - 87)
      else if 65 \<le> n \<and> n \<le> 90 then Some (n - 55)
      else None)"

fun digits_prefix :: "nat \<Rightarrow> string \<Rightarrow> nat list" where
  "digits_prefix radix [] = []"
| "digits_prefix radix (c # cs) =
     (case digit_of c of
        Some d \<Rightarrow> if d < radix then d # digits_prefix radix cs else []
      | None \<Rightarrow> [])"

definition parse_digits :: "nat \<Rightarrow> string \<Rightarrow> nat option" where
  "parse_digits radix s =
     (case digits_prefix radix s of
        [] \<Rightarrow> None
      | d # ds \<Rightarrow> Some (foldl (\<lambda>a x. a * radix + x) 0 (d # ds)))"

definition strip_sign :: "string \<Rightarrow> bool \<times> string" where
  "strip_sign s =
     (case s of
        [] \<Rightarrow> (False, s)
      | c # cs \<Rightarrow> if c = CHR ''-'' then (True, cs)
                 else if c = CHR ''+'' then (False, cs) else (False, s))"

definition strip_radix :: "string \<Rightarrow> nat \<times> string" where
  "strip_radix s =
     (case s of
        c # x # cs \<Rightarrow>
          if c = CHR ''0'' \<and> (x = CHR ''x'' \<or> x = CHR ''X'') then (16, cs) else (10, s)
      | _ \<Rightarrow> (10, s))"

definition parseInt :: "string \<Rightarrow> int option" where
  "parseInt s =
     (let (negative, unsigned) = strip_sign (dropWhile is_whitespace s);
          (radix, digits) = strip_radix unsigned
      in map_option (\<lambda>n. if negative then - int n else int n) (parse_digits radix digits))"

subsection \<open>Environment, request and response\<close>

record environment =
  SUPABASE_URL :: "string option"
  SUPABASE_ANON_KEY :: "string option"
  REQUIRE_MPESA_VERIFICATION :: "string option"
  MEME_VOTE_RATE_LIMIT :: "string option"
  MEME_SUBMIT_RATE_LIMIT :: "string option"

text \<open>
  \<open>await request.json()\<close> throws on a body that is not JSON; on the JSON value
  \<open>null\<close> the destructuring \<open>const { id, userId } = body\<close> throws. Otherwise the
  handlers read the properties \<open>id\<close>, \<open>url\<close> and \<open>userId\<close> of the body.
\<close>

record body_fields =
  b_id :: "string option"
  b_url :: "string option"
  b_userId :: "string option"

datatype request_body = InvalidJSON | NullBody | Body body_fields

record NextRequest =
  req_ip :: "string option"
  req_json :: request_body

record response =
  status :: nat
  res_error :: "string option"
  res_message :: "string option"
  res_id :: "string option"
  res_week :: "int option"

definition error_response :: "nat \<Rightarrow> string \<Rightarrow> string option \<Rightarrow> response" where
  "error_response code err msg =
     \<lparr>status = code, res_error = Some err, res_message = msg, res_id = None,
      res_week = None\<rparr>"

definition missing_credentials :: "environment \<Rightarrow> bool" where
  "missing_credentials env =
     (falsy_opt (SUPABASE_URL env) \<or> falsy_opt (SUPABASE_ANON_KEY env))"

subsection \<open>\<open>getWeekNumber\<close>\<close>

text \<open>
  The two readings of the clock in \<open>getWeekNumber\<close>: \<open>now.getTime()\<close> and
  \<open>new Date(now.getFullYear(), 0, 1).getTime()\<close>, midnight of 1 January of the current
  year in local time. The quotients \<open>diff / oneDay\<close> and \<open>day / 7\<close> are divisions of
  numbers, not of integers.
\<close>

record clock =
  clk_now :: timestamp
  clk_year_start :: timestamp

definition getWeekNumber :: "clock \<Rightarrow> int" where
  "getWeekNumber c =
     (let diff = clk_now c - clk_year_start c;
          oneDay = 1000 * 60 * 60 * 24;
          day = \<lfloor>(of_int diff :: rat) / of_int oneDay\<rfloor>;
          weekNumber = \<lceil>(of_int day :: rat) / 7\<rceil>
      in weekNumber)"

definition getWeekNumber_submit :: "clock \<Rightarrow> int" where
  "getWeekNumber_submit c =
     (let diff = clk_now c - clk_year_start c;
          oneDay = 1000 * 60 * 60 * 24;
          day = \<lfloor>(of_int diff :: rat) / of_int oneDay\<rfloor>;
          weekNumber = \<lceil>(of_int day :: rat) / 7\<rceil>
      in weekNumber)"

text \<open>
  Following the claim's words: the day of the year, counted in days from the epoch of
  1 January of the current year, so that 1 January is day 1 and 31 December day 365 or
  366; and the week \<open>ceil(day_of_year / 7)\<close> the claim gives that day.
\<close>

definition day_of_year :: "clock \<Rightarrow> int" where
  "day_of_year c = (clk_now c - clk_year_start c) div 86400000 + 1"

definition claimed_week :: "clock \<Rightarrow> int" where
  "claimed_week c = \<lceil>(of_int (day_of_year c) :: rat) / 7\<rceil>"

subsection \<open>\<open>checkUserVerification\<close>\<close>

text \<open>Both routes define this function with the same text.\<close>

definition checkUserVerification ::
  "environment \<Rightarrow> fault option \<Rightarrow> database \<Rightarrow> string \<Rightarrow> bool" where
  "checkUserVerification env f db userId =
     (if REQUIRE_MPESA_VERIFICATION env \<noteq> Some ''true'' then True
      else if missing_credentials env then False
      else
        case single f (filter (\<lambda>r. vu_user_id r = Some userId) (verified_users db)) of
          Data row \<Rightarrow> True
        | Err e \<Rightarrow> False
        | Thrown x \<Rightarrow> False)"

section \<open>Rate limiter and vote coordinator (the vote route, src/frontend/tailwind.config.js)\<close>

subsection \<open>Queries on \<open>rate_limits\<close>\<close>

text \<open>
  \<open>select('*', { count: 'exact' })\<close> with the filters \<open>ip\<close>, \<open>endpoint\<close> and
  \<open>created_at >= since\<close>: the number of matching rows.
\<close>

definition rate_limits_count ::
  "fault option \<Rightarrow> string \<Rightarrow> string \<Rightarrow> timestamp \<Rightarrow> database \<Rightarrow> nat reply" where
  "rate_limits_count f ip_key endpoint since db =
     (case f of
        Some (ErrorResult e) \<Rightarrow> Err e
      | Some (Exception x) \<Rightarrow> Thrown x
      | None \<Rightarrow>
          Data (length (filter (\<lambda>r. rl_ip r = ip_key \<and> rl_endpoint r = endpoint
                                   \<and> since \<le> rl_created_at r) (rate_limits db))))"

definition rate_limits_insert ::
  "fault option \<Rightarrow> rate_limit_row \<Rightarrow> database \<Rightarrow> unit reply \<times> database" where
  "rate_limits_insert f row db =
     (case f of
        Some (ErrorResult e) \<Rightarrow> (Err e, db)
      | Some (Exception x) \<Rightarrow> (Thrown x, db)
      | None \<Rightarrow> (Data (), db\<lparr>rate_limits := rate_limits db @ [row]\<rparr>))"

subsection \<open>\<open>checkRateLimit\<close> and \<open>incrementRateLimitCounter\<close>\<close>

text \<open>
  \<open>hourAgo.setHours(hourAgo.getHours() - 1)\<close> moves the local clock back one hour,
  3600000 ms where the local time has no daylight-saving change in that hour.
  \<open>(count || 0) >= limit\<close> is false when \<open>parseInt\<close> gives \<open>NaN\<close>.
\<close>

definition checkRateLimit ::
  "environment \<Rightarrow> timestamp \<Rightarrow> fault option \<Rightarrow> database \<Rightarrow> NextRequest \<Rightarrow> bool" where
  "checkRateLimit env now f db request =
     (if missing_credentials env then False
      else
        let ip = or_default (req_ip request) ''unknown'';
            hourAgo = now - 3600000
        in
        case rate_limits_count f ip ''meme_vote'' hourAgo db of
          Thrown x \<Rightarrow> False
        | Err e \<Rightarrow> False
        | Data count \<Rightarrow>
            (case parseInt (or_default (MEME_VOTE_RATE_LIMIT env) ''20'') of
               None \<Rightarrow> False
             | Some limit \<Rightarrow> limit \<le> int count))"

text \<open>
  The result of the insert is not inspected, and an exception is caught: a failed
  insert leaves no trace but a log entry.
\<close>

definition incrementRateLimitCounter ::
  "environment \<Rightarrow> timestamp \<Rightarrow> fault option \<Rightarrow> database \<Rightarrow> NextRequest \<Rightarrow> database" where
  "incrementRateLimitCounter env now f db request =
     (if missing_credentials env then db
      else
        let ip = or_default (req_ip request) ''unknown'' in
        snd (rate_limits_insert f
               \<lparr>rl_ip = ip, rl_endpoint = ''meme_vote'', rl_created_at = now\<rparr> db))"

subsection \<open>Queries of the vote route\<close>

definition meme_votes_insert ::
  "fault option \<Rightarrow> meme_vote_row \<Rightarrow> database \<Rightarrow> unit reply \<times> database" where
  "meme_votes_insert f row db =
     (case f of
        Some (ErrorResult e) \<Rightarrow> (Err e, db)
      | Some (Exception x) \<Rightarrow> (Thrown x, db)
      | None \<Rightarrow> (Data (), db\<lparr>meme_votes := meme_votes db @ [row]\<rparr>))"

text \<open>
  \<open>update({ votes: votes + 1 }).eq('id', id)\<close>. The source holds both sides of an
  unmerged conflict at this statement; they differ in how the new value is written, not
  in the rows updated or in the handling of the result.
\<close>

definition meme_entries_increment ::
  "fault option \<Rightarrow> string \<Rightarrow> database \<Rightarrow> unit reply \<times> database" where
  "meme_entries_increment f meme_id db =
     (case f of
        Some (ErrorResult e) \<Rightarrow> (Err e, db)
      | Some (Exception x) \<Rightarrow> (Thrown x, db)
      | None \<Rightarrow>
          (Data (),
           db\<lparr>meme_entries :=
                map (\<lambda>r. if me_id r = meme_id then r\<lparr>me_votes := me_votes r + 1\<rparr> else r)
                  (meme_entries db)\<rparr>))"

text \<open>
  Modelled from the spec: the stored procedure \<open>vote_for_meme\<close> is not part of the
  sources. The spec has it "insert the MemeVote row and atomically increment the
  MemeEntry's vote counter" as one unit; the row gets the three parameters and the
  store's clock.
\<close>

definition vote_for_meme ::
  "fault option \<Rightarrow> string \<Rightarrow> string \<Rightarrow> int \<Rightarrow> timestamp \<Rightarrow> database
     \<Rightarrow> unit reply \<times> database" where
  "vote_for_meme f p_meme_id p_user_id p_week now db =
     (case f of
        Some (ErrorResult e) \<Rightarrow> (Err e, db)
      | Some (Exception x) \<Rightarrow> (Thrown x, db)
      | None \<Rightarrow>
          (Data (),
           db\<lparr>meme_votes := meme_votes db @
                  [\<lparr>mv_user = p_user_id, mv_meme_id = p_meme_id, mv_week = p_week,
                    mv_created_at = now, mv_request_id = []\<rparr>],
              meme_entries :=
                map (\<lambda>r. if me_id r = p_meme_id then r\<lparr>me_votes := me_votes r + 1\<rparr>
                         else r)
                  (meme_entries db)\<rparr>))"

subsection \<open>\<open>POST\<close> of the vote route\<close>

text \<open>
  What the outside world answers during one request: \<open>crypto.randomUUID()\<close>, the
  clock, and the failure of each store call in the order of the calls.
\<close>

record vote_call =
  vc_requestId :: string
  vc_clock :: clock
  vc_rate_check_fault :: "fault option"
  vc_verification_fault :: "fault option"
  vc_vote_check_fault :: "fault option"
  vc_meme_lookup_fault :: "fault option"
  vc_rpc_fault :: "fault option"
  vc_vote_insert_fault :: "fault option"
  vc_update_fault :: "fault option"
  vc_rate_insert_fault :: "fault option"

definition server_error :: response where
  "server_error = error_response 500 ''Server error'' None"

text \<open>
  The manual transaction, run when the procedure call resolved with an error: the vote
  row first, then the counter. Either error is thrown and, like an exception of the
  call itself, caught by the \<open>catch\<close> around the two statements.
\<close>

definition fallback_transaction ::
  "vote_call \<Rightarrow> string \<Rightarrow> string \<Rightarrow> int \<Rightarrow> database \<Rightarrow> bool \<times> database" where
  "fallback_transaction io meme_id userId currentWeek db =
     (case meme_votes_insert (vc_vote_insert_fault io)
             \<lparr>mv_user = userId, mv_meme_id = meme_id, mv_week = currentWeek,
              mv_created_at = clk_now (vc_clock io), mv_request_id = vc_requestId io\<rparr> db of
        (Thrown x, db1) \<Rightarrow> (False, db1)
      | (Err voteError, db1) \<Rightarrow> (False, db1)
      | (Data u, db1) \<Rightarrow>
          (case meme_entries_increment (vc_update_fault io) meme_id db1 of
             (Thrown x, db2) \<Rightarrow> (False, db2)
           | (Err updateError, db2) \<Rightarrow> (False, db2)
           | (Data v, db2) \<Rightarrow> (True, db2)))"

text \<open>
  The part of \<open>POST\<close> after the preconditions: the procedure call, the fallback, the
  rate-limit record and the response.
\<close>

definition record_vote ::
  "environment \<Rightarrow> vote_call \<Rightarrow> NextRequest \<Rightarrow> string \<Rightarrow> string \<Rightarrow> int \<Rightarrow> database
     \<Rightarrow> response \<times> database" where
  "record_vote env io request meme_id userId currentWeek db =
     (let recorded = (\<lambda>db1.
            (\<lparr>status = 200, res_error = None,
              res_message = Some ''Vote recorded successfully'', res_id = Some meme_id,
              res_week = Some currentWeek\<rparr>,
             incrementRateLimitCounter env (clk_now (vc_clock io))
               (vc_rate_insert_fault io) db1 request))
      in
      case vote_for_meme (vc_rpc_fault io) meme_id userId currentWeek
             (clk_now (vc_clock io)) db of
        (Thrown x, db1) \<Rightarrow> (server_error, db1)
      | (Data u, db1) \<Rightarrow> recorded db1
      | (Err rpcError, db1) \<Rightarrow>
          (case fallback_transaction io meme_id userId currentWeek db1 of
             (False, db2) \<Rightarrow> (error_response 500 ''Failed to record vote'' None, db2)
           | (True, db2) \<Rightarrow> recorded db2))"

definition POST ::
  "environment \<Rightarrow> vote_call \<Rightarrow> database \<Rightarrow> NextRequest \<Rightarrow> response \<times> database" where
  "POST env io db request =
     (if checkRateLimit env (clk_now (vc_clock io)) (vc_rate_check_fault io) db request then
        (error_response 429 ''Rate limit exceeded'' (Some ''Please try again later''), db)
      else
        case req_json request of
          InvalidJSON \<Rightarrow> (error_response 400 ''Invalid JSON payload'' None, db)
        | NullBody \<Rightarrow> (server_error, db)
        | Body body \<Rightarrow>
            if falsy_opt (b_id body) then
              (error_response 400 ''Meme ID is required'' None, db)
            else if falsy_opt (b_userId body) then
              (error_response 400 ''User ID is required'' None, db)
            else
              let meme_id = or_default (b_id body) [];
                  userId = or_default (b_userId body) []
              in
              if \<not> checkUserVerification env (vc_verification_fault io) db userId then
                (error_response 403 ''User not verified''
                   (Some ''Please verify your account with MPESA first''), db)
              else if missing_credentials env then
                (error_response 500 ''Server configuration error'' None, db)
              else
                let currentWeek = getWeekNumber (vc_clock io) in
                (case single (vc_vote_check_fault io)
                       (filter (\<lambda>r. mv_user r = userId \<and> mv_week r = currentWeek)
                          (meme_votes db)) of
                  Thrown x \<Rightarrow> (server_error, db)
                | Data existingVote \<Rightarrow>
                    (error_response 400 ''Already voted''
                       (Some ''You have already voted for a meme this week''), db)
                | Err checkError \<Rightarrow>
                    (case single (vc_meme_lookup_fault io)
                            (filter (\<lambda>r. me_id r = meme_id) (meme_entries db)) of
                       Thrown x \<Rightarrow> (server_error, db)
                     | Err memeError \<Rightarrow> (error_response 404 ''Meme not found'' None, db)
                     | Data meme \<Rightarrow>
                         if me_week meme \<noteq> currentWeek then
                           (error_response 400 ''Invalid meme''
                              (Some ''You can only vote for memes from the current week''),
                            db)
                         else if me_user meme = userId then
                           (error_response 400 ''Cannot vote for own meme''
                              (Some ''You cannot vote for your own meme''), db)
                         else record_vote env io request meme_id userId currentWeek db)))"

section \<open>The submission route (src/frontend/src/app/api/memes/submit/route.ts)\<close>

definition checkRateLimit_submit ::
  "environment \<Rightarrow> timestamp \<Rightarrow> fault option \<Rightarrow> database \<Rightarrow> NextRequest \<Rightarrow> bool" where
  "checkRateLimit_submit env now f db request =
     (if missing_credentials env then False
      else
        let ip = or_default (req_ip request) ''unknown'';
            hourAgo = now - 3600000
        in
        case rate_limits_count f ip ''meme_submit'' hourAgo db of
          Thrown x \<Rightarrow> False
        | Err e \<Rightarrow> False
        | Data count \<Rightarrow>
            (case parseInt (or_default (MEME_SUBMIT_RATE_LIMIT env) ''5'') of
               None \<Rightarrow> False
             | Some limit \<Rightarrow> limit \<le> int count))"

definition incrementRateLimitCounter_submit ::
  "environment \<Rightarrow> timestamp \<Rightarrow> fault option \<Rightarrow> database \<Rightarrow> NextRequest \<Rightarrow> database" where
  "incrementRateLimitCounter_submit env now f db request =
     (if missing_credentials env then db
      else
        let ip = or_default (req_ip request) ''unknown'' in
        snd (rate_limits_insert f
               \<lparr>rl_ip = ip, rl_endpoint = ''meme_submit'', rl_created_at = now\<rparr> db))"

text \<open>\<open>insert([...]).select('id').single()\<close>: the id the store gave the new row.\<close>

definition meme_entries_insert ::
  "fault option \<Rightarrow> string \<Rightarrow> meme_entry_row \<Rightarrow> database \<Rightarrow> string reply \<times> database" where
  "meme_entries_insert f new_id row db =
     (case f of
        Some (ErrorResult e) \<Rightarrow> (Err e, db)
      | Some (Exception x) \<Rightarrow> (Thrown x, db)
      | None \<Rightarrow> (Data new_id, db\<lparr>meme_entries := meme_entries db @ [row\<lparr>me_id := new_id\<rparr>]\<rparr>))"

text \<open>
  The answers of the outside world during one submission; \<open>sc_valid_url\<close> tells
  whether \<open>new URL(url)\<close> accepts the string.
\<close>

record submit_call =
  sc_requestId :: string
  sc_clock :: clock
  sc_new_id :: string
  sc_valid_url :: "string \<Rightarrow> bool"
  sc_rate_check_fault :: "fault option"
  sc_verification_fault :: "fault option"
  sc_submission_check_fault :: "fault option"
  sc_insert_fault :: "fault option"
  sc_rate_insert_fault :: "fault option"

definition POST_submit ::
  "environment \<Rightarrow> submit_call \<Rightarrow> database \<Rightarrow> NextRequest \<Rightarrow> response \<times> database" where
  "POST_submit env io db request =
     (if checkRateLimit_submit env (clk_now (sc_clock io)) (sc_rate_check_fault io) db request
      then (error_response 429 ''Rate limit exceeded'' (Some ''Please try again later''), db)
      else
        case req_json request of
          InvalidJSON \<Rightarrow> (error_response 400 ''Invalid JSON payload'' None, db)
        | NullBody \<Rightarrow> (server_error, db)
        | Body body \<Rightarrow>
            if falsy_opt (b_url body) then
              (error_response 400 ''Meme URL is required'' None, db)
            else if \<not> sc_valid_url io (or_default (b_url body) []) then
              (error_response 400 ''Invalid URL format'' None, db)
            else if falsy_opt (b_userId body) then
              (error_response 400 ''User ID is required'' None, db)
            else
              let url = or_default (b_url body) [];
                  userId = or_default (b_userId body) []
              in
              if \<not> checkUserVerification env (sc_verification_fault io) db userId then
                (error_response 403 ''User not verified''
                   (Some ''Please verify your account with MPESA first''), db)
              else if missing_credentials env then
                (error_response 500 ''Server configuration error'' None, db)
              else
                let currentWeek = getWeekNumber_submit (sc_clock io) in
                (case single (sc_submission_check_fault io)
                        (filter (\<lambda>r. me_user r = userId \<and> me_week r = currentWeek)
                           (meme_entries db)) of
                   Thrown x \<Rightarrow> (server_error, db)
                 | Data existingSubmission \<Rightarrow>
                     (error_response 400 ''Already submitted''
                        (Some ''You have already submitted a meme this week''), db)
                 | Err checkError \<Rightarrow>
                     (case meme_entries_insert (sc_insert_fault io) (sc_new_id io)
                             \<lparr>me_id = [], me_url = url, me_user = userId,
                              me_week = currentWeek, me_votes = 0,
                              me_created_at = clk_now (sc_clock io),
                              me_request_id = sc_requestId io\<rparr> db of
                        (Thrown x, db1) \<Rightarrow> (server_error, db1)
                      | (Err err, db1) \<Rightarrow>
                          (error_response 500 ''Failed to submit meme'' None, db1)
                      | (Data new_id, db1) \<Rightarrow>
                          (\<lparr>status = 201, res_error = None,
                            res_message = Some ''Meme submitted successfully'',
                            res_id = Some new_id, res_week = Some currentWeek\<rparr>,
                           incrementRateLimitCounter_submit env (clk_now (sc_clock io))
                             (sc_rate_insert_fault io) db1 request))))"

section \<open>Sequences of requests\<close>

text \<open>The key under which the limiter counts a request: \<open>request.ip || 'unknown'\<close>.\<close>

definition client_key :: "NextRequest \<Rightarrow> string" where
  "client_key request = or_default (req_ip request) ''unknown''"

text \<open>The rows of \<open>rate_limits\<close> for a key and an endpoint that are not older than \<open>since\<close>.\<close>

definition window_count :: "string \<Rightarrow> string \<Rightarrow> timestamp \<Rightarrow> database \<Rightarrow> nat" where
  "window_count ip_key endpoint since db =
     length (filter (\<lambda>r. rl_ip r = ip_key \<and> rl_endpoint r = endpoint
                           \<and> since \<le> rl_created_at r) (rate_limits db))"

text \<open>The thresholds as the two routes read them from the environment.\<close>

definition vote_limit :: "environment \<Rightarrow> int option" where
  "vote_limit env = parseInt (or_default (MEME_VOTE_RATE_LIMIT env) ''20'')"

definition submit_limit :: "environment \<Rightarrow> int option" where
  "submit_limit env = parseInt (or_default (MEME_SUBMIT_RATE_LIMIT env) ''5'')"

text \<open>
  Requests handled one after the other, each on the tables the previous one left: the
  responses in order, and the tables at the end.
\<close>

fun run_POST ::
  "environment \<Rightarrow> (vote_call \<times> NextRequest) list \<Rightarrow> database \<Rightarrow> response list \<times> database" where
  "run_POST env [] db = ([], db)"
| "run_POST env ((io, request) # calls) db =
     (let (r, db1) = POST env io db request;
          (rs, db2) = run_POST env calls db1
      in (r # rs, db2))"

fun run_POST_submit ::
  "environment \<Rightarrow> (submit_call \<times> NextRequest) list \<Rightarrow> database
     \<Rightarrow> response list \<times> database" where
  "run_POST_submit env [] db = ([], db)"
| "run_POST_submit env ((io, request) # calls) db =
     (let (r, db1) = POST_submit env io db request;
          (rs, db2) = run_POST_submit env calls db1
      in (r # rs, db2))"

text \<open>The number of responses with a given status.\<close>

definition count_status :: "nat \<Rightarrow> response list \<Rightarrow> nat" where
  "count_status code rs = length (filter (\<lambda>r. status r = code) rs)"

section \<open>Observations on the vote route\<close>

text \<open>The voter a request names, when its body carries a meme id and a user id.\<close>

definition voter_of :: "NextRequest \<Rightarrow> string option" where
  "voter_of request =
     (case req_json request of
        Body body \<Rightarrow>
          if falsy_opt (b_id body) \<or> falsy_opt (b_userId body) then None else b_userId body
      | _ \<Rightarrow> None)"

text \<open>The votes a voter has in a week: the rows the "already voted" query selects.\<close>

definition votes_of :: "string \<Rightarrow> int \<Rightarrow> database \<Rightarrow> meme_vote_row list" where
  "votes_of userId week db =
     filter (\<lambda>r. mv_user r = userId \<and> mv_week r = week) (meme_votes db)"



definition not_verified :: response where
  "not_verified =
     error_response 403 ''User not verified''
       (Some ''Please verify your account with MPESA first'')"

definition failed_to_record :: response where
  "failed_to_record = error_response 500 ''Failed to record vote'' None"


text \<open>Concrete inputs used to exercise the definitions.\<close>

definition sample_runtime :: js_runtime where
  "sample_runtime =
     \<lparr>parseFloat = (\<lambda>s. if s = ''1.00'' then Finite 1
                         else if s = ''2.00'' then Finite 2 else NaN),
      number_toString = (\<lambda>n. if n = Finite 1 then ''1''
                         else if n = Finite 2 then ''2'' else ''NaN''),
      subtle_digest_sha256 = (\<lambda>s. Inl ''TypeError: crypto.subtle is undefined'')\<rparr>"

definition sample_payload :: MPESAWebhookPayload where
  "sample_payload =
     \<lparr>TransactionType = ''Pay Bill'', TransID = ''T1'', TransTime = ''20250101120000'',
      TransAmount = ''1.00'', BusinessShortCode = ''123456'',
      BillRefNumber = Some ''Nairobi'', InvoiceNumber = None,
      OrgAccountBalance = ''0.00'', ThirdPartyTransID = None,
      MSISDN = ''254700000001'', FirstName = None, MiddleName = None, LastName = None\<rparr>"

definition sample_webhook_call :: webhook_call where
  "sample_webhook_call =
     \<lparr>wc_now = 1735732800000, wc_new_id = ''pledge-1'', wc_insert_fault = None,
      wc_upsert_fault = None\<rparr>"

text \<open>
  The \<open>pledges\<close> table of the migration with the pledge of transaction \<open>T1\<close>
  stored.
\<close>

definition stored_pledge :: database where
  "stored_pledge =
     empty_database
       \<lparr>pledges :=
          [\<lparr>pl_id = ''pledge-0'', pl_phone = ''fallback_784ec5f9'', pl_county = ''Nairobi'',
            pl_amount = 1, pl_payment_method = ''mpesa'', pl_created_at = 1735729200000,
            pl_transaction_id = Some ''T1'', pl_verified = False\<rparr>]\<rparr>"

text \<open>
  A payment from a number that has the fallback digest \<open>fallback_2ebe9c2d\<close> in
  common with the number \<open>254777020913\<close>.
\<close>

definition colliding_payload :: MPESAWebhookPayload where
  "colliding_payload = sample_payload\<lparr>TransID := ''T2'', MSISDN := ''254706741209''\<rparr>"


definition sample_url :: "string option" where
  "sample_url = Some ''https://project.supabase.co''"

definition sample_key :: "string option" where
  "sample_key = Some ''anon-key''"

text \<open>A contest in the week of 8 January 2025 (week 1), with two entries.\<close>

definition sample_env :: environment where
  "sample_env =
     \<lparr>SUPABASE_URL = sample_url, SUPABASE_ANON_KEY = sample_key,
      REQUIRE_MPESA_VERIFICATION = None, MEME_VOTE_RATE_LIMIT = None,
      MEME_SUBMIT_RATE_LIMIT = None\<rparr>"

definition sample_clock :: clock where
  "sample_clock = \<lparr>clk_now = 1736337600000, clk_year_start = 1735689600000\<rparr>"

text \<open>Noon of 1 January 2025.\<close>

definition new_year_clock :: clock where
  "new_year_clock = \<lparr>clk_now = 1735732800000, clk_year_start = 1735689600000\<rparr>"

definition sample_vote_call :: vote_call where
  "sample_vote_call =
     \<lparr>vc_requestId = ''req-1'', vc_clock = sample_clock, vc_rate_check_fault = None,
      vc_verification_fault = None, vc_vote_check_fault = None,
      vc_meme_lookup_fault = None, vc_rpc_fault = None, vc_vote_insert_fault = None,
      vc_update_fault = None, vc_rate_insert_fault = None\<rparr>"

definition sample_submit_call :: submit_call where
  "sample_submit_call =
     \<lparr>sc_requestId = ''req-2'', sc_clock = sample_clock, sc_new_id = ''m3'',
      sc_valid_url = (\<lambda>u. prefix ''https://'' u), sc_rate_check_fault = None,
      sc_verification_fault = None, sc_submission_check_fault = None,
      sc_insert_fault = None, sc_rate_insert_fault = None\<rparr>"

definition sample_contest :: database where
  "sample_contest =
     empty_database
       \<lparr>meme_entries :=
          [\<lparr>me_id = ''m1'', me_url = ''https://memes.example/1.png'', me_user = ''owner1'',
            me_week = 1, me_votes = 0, me_created_at = 1736300000000,
            me_request_id = ''req-a''\<rparr>,
           \<lparr>me_id = ''m2'', me_url = ''https://memes.example/2.png'', me_user = ''owner2'',
            me_week = 1, me_votes = 0, me_created_at = 1736300000001,
            me_request_id = ''req-b''\<rparr>]\<rparr>"

definition vote_request :: "string option \<Rightarrow> string \<Rightarrow> string \<Rightarrow> NextRequest" where
  "vote_request ip_opt meme_id userId =
     \<lparr>req_ip = ip_opt,
      req_json = Body \<lparr>b_id = Some meme_id, b_url = None, b_userId = Some userId\<rparr>\<rparr>"

definition submit_request :: "string option \<Rightarrow> string \<Rightarrow> string \<Rightarrow> NextRequest" where
  "submit_request ip_opt url userId =
     \<lparr>req_ip = ip_opt,
      req_json = Body \<lparr>b_id = None, b_url = Some url, b_userId = Some userId\<rparr>\<rparr>"




text \<open>A table of twenty recent records of one address for the vote endpoint.\<close>

definition sample_full_window :: database where
  "sample_full_window =
     empty_database
       \<lparr>rate_limits :=
          replicate 20 \<lparr>rl_ip = ''10.0.0.1'', rl_endpoint = ''meme_vote'',
                         rl_created_at = 1736337000000\<rparr>\<rparr>"

text \<open>A deployment with the thresholds configured as 2 votes and 1 submission.\<close>

definition strict_env :: environment where
  "strict_env =
     sample_env\<lparr>MEME_VOTE_RATE_LIMIT := Some ''2'', MEME_SUBMIT_RATE_LIMIT := Some ''1''\<rparr>"

definition anonymous_votes :: "(vote_call \<times> NextRequest) list" where
  "anonymous_votes =
     [(sample_vote_call, vote_request None ''m1'' ''alice''),
      (sample_vote_call, vote_request (Some []) ''m2'' ''bob'')]"

definition anonymous_submissions :: "(submit_call \<times> NextRequest) list" where
  "anonymous_submissions =
     [(sample_submit_call, submit_request None ''https://memes.example/new.png'' ''dave'')]"

definition rate_limited :: response where
  "rate_limited = error_response 429 ''Rate limit exceeded'' (Some ''Please try again later'')"



definition sample_store_error :: PostgrestError where
  "sample_store_error = \<lparr>err_code = ''57014'', err_message = ''canceling statement''\<rparr>"

definition fallback_call :: vote_call where
  "fallback_call =
     sample_vote_call
       \<lparr>vc_rpc_fault := Some (ErrorResult \<lparr>err_code = ''PGRST202'',
                                            err_message = ''function not found''\<rparr>),
        vc_update_fault := Some (ErrorResult sample_store_error)\<rparr>"


section \<open>Properties\<close>

lemma first_missing_requiredFields:
  "first_missing requiredFields p = None \<longleftrightarrow>
     TransactionType p \<noteq> [] \<and> TransID p \<noteq> [] \<and> TransTime p \<noteq> [] \<and>
     TransAmount p \<noteq> [] \<and> BusinessShortCode p \<noteq> [] \<and> MSISDN p \<noteq> []"
  by (simp add: requiredFields_def falsy_def)

text \<open>
  Claim C7. When the six required fields are all non-empty and the parsed amount is not
  exactly 1.00, \<open>verifyWebhookPayload\<close> fails, its message is the invalid-amount
  message built from the parsed amount, and none of the normalised fields is returned.
\<close>

theorem verifyWebhookPayload_invalid_amount:
  assumes "TransactionType p \<noteq> []" and "TransID p \<noteq> []" and "TransTime p \<noteq> []"
    and "TransAmount p \<noteq> []" and "BusinessShortCode p \<noteq> []" and "MSISDN p \<noteq> []"
    and "parseFloat rt (TransAmount p) \<noteq> Finite 1"
  shows "verifyWebhookPayload rt shortcode_env p =
           verification_failure
             (''Invalid amount: '' @ number_toString rt (parseFloat rt (TransAmount p))
                @ ''. Pledge amount must be exactly KES 1.00'')
         \<and> \<not> v_success (verifyWebhookPayload rt shortcode_env p)"
proof -
  have "first_missing requiredFields p = None"
    using assms by (simp add: first_missing_requiredFields)
  then show ?thesis
    using assms(7) by (simp add: verifyWebhookPayload_def verification_failure_def)
qed

theorem verifyWebhookPayload_invalid_amount_witness:
  "verifyWebhookPayload sample_runtime None (sample_payload\<lparr>TransAmount := ''2.00''\<rparr>) =
     verification_failure ''Invalid amount: 2. Pledge amount must be exactly KES 1.00''
   \<and> \<not> v_success
         (verifyWebhookPayload sample_runtime None (sample_payload\<lparr>TransAmount := ''2.00''\<rparr>))"
proof -
  let ?p = "sample_payload\<lparr>TransAmount := ''2.00''\<rparr>"
  have fields: "TransactionType ?p \<noteq> []" "TransID ?p \<noteq> []" "TransTime ?p \<noteq> []"
    "TransAmount ?p \<noteq> []" "BusinessShortCode ?p \<noteq> []" "MSISDN ?p \<noteq> []"
    by (simp_all add: sample_payload_def)
  have amount: "parseFloat sample_runtime ''2.00'' = Finite 2"
    by (simp add: sample_runtime_def)
  have shown: "number_toString sample_runtime (Finite 2) = ''2''"
    by (simp add: sample_runtime_def)
  show ?thesis
    using verifyWebhookPayload_invalid_amount [OF fields, of sample_runtime None]
    by (simp add: amount shown verification_failure_def)
qed

subsection \<open>The paths of \<open>processWebhookPayload\<close>\<close>

lemma verifyWebhookPayload_success:
  assumes "v_success (verifyWebhookPayload rt shortcode_env p)"
  shows "verifyWebhookPayload rt shortcode_env p =
           \<lparr>v_success = True, v_message = ''Webhook payload verified'',
            v_county = or_opt (BillRefNumber p) (InvoiceNumber p),
            v_amount = Some (Finite 1), v_transactionId = Some (TransID p),
            v_phoneNumber = Some (MSISDN p)\<rparr>"
  using assms
  by (auto simp add: verifyWebhookPayload_def verification_failure_def Let_def
      split: option.splits if_splits)

lemma processWebhookPayload_verified:
  assumes "v_success (verifyWebhookPayload rt shortcode_env p)"
  shows "processWebhookPayload rt shortcode_env now c st p =
     (let phoneHash = fst (hashPhoneNumber rt (MSISDN p));
          hash_log = snd (hashPhoneNumber rt (MSISDN p))
      in
      case pledges_insert_select_id c (pledge_request phoneHash now p) st of
        (Thrown exn, st1) \<Rightarrow>
          (fst (internal_server_error exn p), st1,
           hash_log @ snd (internal_server_error exn p))
      | (Err err, st1) \<Rightarrow>
          if err_code err = ''23505'' \<and> sublist ''transaction_id'' (err_message err)
          then
            (\<lparr>r_success = True, r_message = ''Duplicate transaction, already processed'',
              r_id = None\<rparr>, st1, hash_log)
          else
            (\<lparr>r_success = False,
              r_message = ''Failed to create pledge: '' @ err_message err,
              r_id = None\<rparr>, st1,
             hash_log @
             [log_entry error ''Error creating pledge''
                [(''error'', ErrVal err), (''transactionId'', StrVal (Some (TransID p)))]])
      | (Data new_id, st1) \<Rightarrow>
          (case verified_users_upsert_rows c [verified_user_request phoneHash now p] st1 of
             (Thrown exn, st2) \<Rightarrow>
               (fst (internal_server_error exn p), st2,
                hash_log @ snd (internal_server_error exn p))
           | (Err userError, st2) \<Rightarrow>
               (\<lparr>r_success = True, r_message = ''Pledge created successfully'',
                 r_id = Some new_id\<rparr>, st2,
                hash_log @
                [log_entry warn ''Error updating verified users''
                   [(''error'', ErrVal userError), (''phone'', StrVal (Some (MSISDN p)))]])
           | (Data u, st2) \<Rightarrow>
               (\<lparr>r_success = True, r_message = ''Pledge created successfully'',
                 r_id = Some new_id\<rparr>, st2, hash_log)))"
  by (simp add: processWebhookPayload_def verifyWebhookPayload_success [OF assms]
      pledge_request_def verified_user_request_def json_opt_def Let_def
      split: prod.splits reply.splits)

subsection \<open>Redelivery of a recorded payment\<close>

lemma sample_payload_verified:
  "verifyWebhookPayload sample_runtime None sample_payload =
     \<lparr>v_success = True, v_message = ''Webhook payload verified'',
      v_county = Some ''Nairobi'', v_amount = Some (Finite 1),
      v_transactionId = Some ''T1'', v_phoneNumber = Some ''254700000001''\<rparr>"
  by (simp add: verifyWebhookPayload_def sample_runtime_def sample_payload_def
      requiredFields_def falsy_def or_default_def or_opt_def falsy_opt_def)

lemma sample_phone_hash:
  "hashPhoneNumber sample_runtime ''254700000001'' =
     (''fallback_784ec5f9'',
      [log_entry error ''Error hashing phone number''
         [(''error'', ExnVal ''TypeError: crypto.subtle is undefined'')]])"
proof -
  have "fallback_hash ''254700000001'' = 1315287278015298055"
    by (simp add: fallback_hash_def fallback_step_def)
  then show ?thesis
    by (simp add: hashPhoneNumber_def sample_runtime_def hex_digit_def)
qed

text \<open>
  The insert of \<open>processWebhookPayload\<close> names the column \<open>phone_hash\<close>, which the
  table of the migration does not have: the store refuses it whatever the table holds,
  and the error is not the one of a repeated transaction id.
\<close>

lemma pledges_insert_refused:
  "pledges_insert None new_id now (pledge_request phoneHash created p) db =
     (Err (undefined_column ''phone_hash'' ''pledges''), db)"
  by (simp add: pledges_insert_def pledge_request_def pledges_columns_def)

lemma undefined_column_is_no_duplicate:
  "err_code (undefined_column c t) \<noteq> ''23505''"
  by (simp add: undefined_column_def)

text \<open>
  So while the store answers, no verified payload is recorded, first delivery or
  repeated: the result is the failure, and the tables stay as they were.
\<close>

lemma processWebhookPayload_never_records:
  assumes "v_success (verifyWebhookPayload rt shortcode_env p)"
    and "wc_insert_fault io = None"
  shows "processWebhookPayload rt shortcode_env now (repository_client io) db p =
           (\<lparr>r_success = False,
             r_message = ''Failed to create pledge: ''
               @ err_message (undefined_column ''phone_hash'' ''pledges''),
             r_id = None\<rparr>,
            db,
            snd (hashPhoneNumber rt (MSISDN p)) @
            [log_entry error ''Error creating pledge''
               [(''error'', ErrVal (undefined_column ''phone_hash'' ''pledges'')),
                (''transactionId'', StrVal (Some (TransID p)))]])"
  unfolding processWebhookPayload_verified [OF assms(1)]
  by (simp add: repository_client_def assms(2) pledges_insert_refused
      undefined_column_is_no_duplicate Let_def)

text \<open>
  Of the errors the insert can resolve with, \<open>processWebhookPayload\<close> reports as
  success exactly those with the code 23505 and a message naming \<open>transaction_id\<close>.
  Had the table the column, the repeated transaction id would be refused with such an
  error.
\<close>

lemma processWebhookPayload_insert_error:
  assumes "v_success (verifyWebhookPayload rt shortcode_env p)"
  shows "r_success (fst (processWebhookPayload rt shortcode_env now
                           (recording_client (\<lambda>obj. Err e) upsert_reply) calls p))
         \<longleftrightarrow> err_code e = ''23505'' \<and> sublist ''transaction_id'' (err_message e)"
  unfolding processWebhookPayload_verified [OF assms]
  by (simp add: recording_client_def Let_def)

lemma unique_violation_transaction_id:
  "err_code (unique_violation ''pledges_transaction_id_key'') = ''23505''"
  "sublist ''transaction_id'' (err_message (unique_violation ''pledges_transaction_id_key''))"
proof -
  show "err_code (unique_violation ''pledges_transaction_id_key'') = ''23505''"
    by (simp add: unique_violation_def)
  have "err_message (unique_violation ''pledges_transaction_id_key'') =
          (''duplicate key value violates unique constraint '' @ [CHR 0x22] @ ''pledges_'')
            @ ''transaction_id'' @ (''_key'' @ [CHR 0x22])"
    by (simp add: unique_violation_def quoted_def)
  then show "sublist ''transaction_id''
               (err_message (unique_violation ''pledges_transaction_id_key''))"
    unfolding sublist_def by blast
qed

lemma pledges_insert_repeated:
  "pledges_insert None ''pledge-1'' 1735732800000
     [(''phone'', JString ''fallback_784ec5f9''), (''county'', JString ''Nairobi''),
      (''transaction_id'', JString ''T1''), (''created_at'', JTime 1735732800000)]
     stored_pledge
   = (Err (unique_violation ''pledges_transaction_id_key''), stored_pledge)"
  by (simp add: pledges_insert_def pledges_columns_def stored_pledge_def
      empty_database_def)

text \<open>
  Claim C1 at a redelivery. The payload of transaction \<open>T1\<close> is verified, the
  \<open>pledges\<close> table holds the pledge of \<open>T1\<close> and the store answers; the call
  returns the failure "Failed to create pledge" with the store's message about the
  column \<open>phone_hash\<close>, not the success "Duplicate transaction, already processed".
  The tables are unchanged, and the error is logged with the transaction id.
\<close>

theorem processWebhookPayload_redelivery_fails:
  "processWebhookPayload sample_runtime None 1735732800000
     (repository_client sample_webhook_call) stored_pledge sample_payload
   = (\<lparr>r_success = False,
       r_message = ''Failed to create pledge: column '' @ quoted ''phone_hash''
         @ '' of relation '' @ quoted ''pledges'' @ '' does not exist'',
       r_id = None\<rparr>,
      stored_pledge,
      [log_entry error ''Error hashing phone number''
         [(''error'', ExnVal ''TypeError: crypto.subtle is undefined'')],
       log_entry error ''Error creating pledge''
         [(''error'', ErrVal (undefined_column ''phone_hash'' ''pledges'')),
          (''transactionId'', StrVal (Some ''T1''))]])
   \<and> v_success (verifyWebhookPayload sample_runtime None sample_payload)
   \<and> TransID sample_payload = ''T1''
   \<and> map pl_transaction_id (pledges stored_pledge) = [Some ''T1'']"
proof -
  have verified: "v_success (verifyWebhookPayload sample_runtime None sample_payload)"
    by (simp add: sample_payload_verified)
  have answered: "wc_insert_fault sample_webhook_call = None"
    by (simp add: sample_webhook_call_def)
  have payload: "TransID sample_payload = ''T1''" "MSISDN sample_payload = ''254700000001''"
    by (simp_all add: sample_payload_def)
  have stored: "map pl_transaction_id (pledges stored_pledge) = [Some ''T1'']"
    by (simp add: stored_pledge_def empty_database_def)
  show ?thesis
    unfolding processWebhookPayload_never_records [OF verified answered]
    by (simp add: verified payload stored sample_phone_hash undefined_column_def)
qed

subsection \<open>Privacy of the payer's phone number\<close>













lemma colliding_digests:
  "hashPhoneNumber sample_runtime ''254706741209'' =
     (''fallback_2ebe9c2d'',
      [log_entry error ''Error hashing phone number''
         [(''error'', ExnVal ''TypeError: crypto.subtle is undefined'')]])"
  "hashPhoneNumber sample_runtime ''254777020913'' =
     (''fallback_2ebe9c2d'',
      [log_entry error ''Error hashing phone number''
         [(''error'', ExnVal ''TypeError: crypto.subtle is undefined'')]])"
proof -
  have "fallback_hash ''254706741209'' = 1315287283544450003"
    by (simp add: fallback_hash_def fallback_step_def)
  then show "hashPhoneNumber sample_runtime ''254706741209'' =
     (''fallback_2ebe9c2d'',
      [log_entry error ''Error hashing phone number''
         [(''error'', ExnVal ''TypeError: crypto.subtle is undefined'')]])"
    by (simp add: hashPhoneNumber_def sample_runtime_def hex_digit_def)
  have "fallback_hash ''254777020913'' = 1315287476817978323"
    by (simp add: fallback_hash_def fallback_step_def)
  then show "hashPhoneNumber sample_runtime ''254777020913'' =
     (''fallback_2ebe9c2d'',
      [log_entry error ''Error hashing phone number''
         [(''error'', ExnVal ''TypeError: crypto.subtle is undefined'')]])"
    by (simp add: hashPhoneNumber_def sample_runtime_def hex_digit_def)
qed

lemma colliding_payload_verified:
  "verifyWebhookPayload sample_runtime None (colliding_payload\<lparr>MSISDN := m\<rparr>) =
     (if m = [] then verification_failure ''Missing required field: MSISDN''
      else \<lparr>v_success = True, v_message = ''Webhook payload verified'',
             v_county = Some ''Nairobi'', v_amount = Some (Finite 1),
             v_transactionId = Some ''T2'', v_phoneNumber = Some m\<rparr>)"
  by (simp add: verifyWebhookPayload_def sample_runtime_def colliding_payload_def
      sample_payload_def requiredFields_def falsy_def or_default_def or_opt_def
      falsy_opt_def)



text \<open>
  Also outside the claim: when the verified-user upsert resolves with an error,
  \<open>processWebhookPayload\<close> logs the number under the property \<open>phone\<close>, where the
  surrounding code works with the digest; and its \<open>catch\<close> logs the payload.
\<close>

lemma processWebhookPayload_upsert_error_logs_phone:
  "snd (snd (processWebhookPayload sample_runtime None 1735732800000
               (recording_client (\<lambda>obj. Data ''pledge-1'')
                  (\<lambda>rows. Err \<lparr>err_code = ''57014'', err_message = ''timeout''\<rparr>))
               [] (colliding_payload\<lparr>MSISDN := ''254777020913''\<rparr>)))
   = [log_entry error ''Error hashing phone number''
        [(''error'', ExnVal ''TypeError: crypto.subtle is undefined'')],
      log_entry warn ''Error updating verified users''
        [(''error'', ErrVal \<lparr>err_code = ''57014'', err_message = ''timeout''\<rparr>),
         (''phone'', StrVal (Some ''254777020913''))]]"
  by (simp add: processWebhookPayload_def colliding_payload_verified colliding_digests
      recording_client_def json_opt_def)



subsection \<open>Contest week\<close>

lemma floor_day:
  "\<lfloor>(of_int d :: rat) / of_int (1000 * 60 * 60 * 24)\<rfloor> = d div 86400000"
proof -
  have "\<lfloor>(of_int d :: rat) / of_int 86400000\<rfloor> = d div 86400000"
    by (rule floor_divide_of_int_eq)
  then show ?thesis by simp
qed

lemma ceiling_week: "\<lceil>(of_int d :: rat) / 7\<rceil> = (d + 6) div 7"
proof -
  have "\<lceil>(of_int d :: rat) / of_int 7\<rceil> = - ((- d) div 7)"
    by (rule ceiling_divide_eq_div)
  also have "\<dots> = (d + 6) div 7"
    by presburger
  finally show ?thesis by simp
qed

lemma getWeekNumber_closed_form:
  "getWeekNumber c = ((clk_now c - clk_year_start c) div 86400000 + 6) div 7"
  "getWeekNumber_submit c = ((clk_now c - clk_year_start c) div 86400000 + 6) div 7"
  unfolding getWeekNumber_def getWeekNumber_submit_def Let_def floor_day ceiling_week
  by simp_all

lemma sample_week: "getWeekNumber sample_clock = 1" "getWeekNumber_submit sample_clock = 1"
  by (simp_all add: getWeekNumber_closed_form sample_clock_def)

text \<open>
  Both routes divide the number of whole days elapsed since 1 January, one less than
  the day of the year. The result is the week of the claim except on the first day of
  each of its weeks (1, 8, 15, \<dots> January and so on), where it is one less.
\<close>

lemma getWeekNumber_of_day_of_year:
  "getWeekNumber c = \<lceil>(of_int (day_of_year c - 1) :: rat) / 7\<rceil>"
  "getWeekNumber_submit c = getWeekNumber c"
  unfolding getWeekNumber_def getWeekNumber_submit_def day_of_year_def Let_def floor_day
  by simp_all

lemma claimed_week_closed_form: "claimed_week c = (day_of_year c + 6) div 7"
  unfolding claimed_week_def ceiling_week ..

lemma week_shift:
  fixes d :: int
  shows "(d + 5) div 7 = (if d mod 7 = 1 then (d + 6) div 7 - 1 else (d + 6) div 7)"
proof -
  define k where "k = (d + 6) div 7"
  define r where "r = (d + 6) mod 7"
  have d: "d + 6 = 7 * k + r" and r: "0 \<le> r" "r < 7"
    by (simp_all add: k_def r_def)
  have first: "d mod 7 = 1 \<longleftrightarrow> r = 0"
    unfolding r_def by presburger
  show ?thesis
  proof (cases "r = 0")
    case True
    with d have "d + 5 = 7 * (k - 1) + 6" by simp
    then have "(d + 5) div 7 = k - 1"
      by (simp add: int_div_pos_eq)
    with True first show ?thesis by (simp add: k_def)
  next
    case False
    with d r have "d + 5 = 7 * k + (r - 1)" "0 \<le> r - 1" "r - 1 < 7" by simp_all
    then have "(d + 5) div 7 = k"
      by (metis int_div_pos_eq)
    with False first show ?thesis by (simp add: k_def)
  qed
qed

lemma getWeekNumber_against_claim:
  "getWeekNumber c = (if day_of_year c mod 7 = 1 then claimed_week c - 1 else claimed_week c)"
proof -
  have "getWeekNumber c = (day_of_year c + 5) div 7"
    by (simp add: getWeekNumber_closed_form day_of_year_def)
  then show ?thesis
    unfolding claimed_week_closed_form by (simp only: week_shift)
qed

text \<open>
  Claim C4 at noon of 1 January 2025 and of 8 January 2025. These are day 1 and day 8
  of the year, for which \<open>ceil(day_of_year / 7)\<close> is 1 and 2; both routes compute 0
  and 1.
\<close>

theorem getWeekNumber_on_1_January:
  "day_of_year new_year_clock = 1 \<and> claimed_week new_year_clock = 1
   \<and> getWeekNumber new_year_clock = 0 \<and> getWeekNumber_submit new_year_clock = 0
   \<and> day_of_year sample_clock = 8 \<and> claimed_week sample_clock = 2
   \<and> getWeekNumber sample_clock = 1 \<and> getWeekNumber_submit sample_clock = 1"
  by (simp add: getWeekNumber_closed_form claimed_week_closed_form day_of_year_def
      new_year_clock_def sample_clock_def)

subsection \<open>Rate limiter\<close>

lemma parseInt_defaults: "parseInt ''20'' = Some 20" "parseInt ''5'' = Some 5"
  by (simp_all add: parseInt_def strip_sign_def strip_radix_def parse_digits_def
      digit_of_def is_whitespace_def)

lemma default_limits:
  "MEME_VOTE_RATE_LIMIT env = None \<Longrightarrow> vote_limit env = Some 20"
  "MEME_SUBMIT_RATE_LIMIT env = None \<Longrightarrow> submit_limit env = Some 5"
  by (simp_all add: vote_limit_def submit_limit_def or_default_def parseInt_defaults)

lemma checkRateLimit_answered:
  assumes "\<not> missing_credentials env"
  shows "checkRateLimit env now None db request =
           (case vote_limit env of
              None \<Rightarrow> False
            | Some limit \<Rightarrow>
                limit \<le> int (window_count (client_key request) ''meme_vote''
                                (now - 3600000) db))"
  using assms
  by (simp add: checkRateLimit_def rate_limits_count_def vote_limit_def window_count_def
      client_key_def split: option.splits)

lemma checkRateLimit_submit_answered:
  assumes "\<not> missing_credentials env"
  shows "checkRateLimit_submit env now None db request =
           (case submit_limit env of
              None \<Rightarrow> False
            | Some limit \<Rightarrow>
                limit \<le> int (window_count (client_key request) ''meme_submit''
                                (now - 3600000) db))"
  using assms
  by (simp add: checkRateLimit_submit_def rate_limits_count_def submit_limit_def
      window_count_def client_key_def split: option.splits)

lemma checkRateLimit_failed:
  assumes "f \<noteq> None \<or> missing_credentials env"
  shows "\<not> checkRateLimit env now f db request"
    and "\<not> checkRateLimit_submit env now f db request"
  using assms
  by (auto simp add: checkRateLimit_def checkRateLimit_submit_def rate_limits_count_def
      split: option.splits fault.splits)

text \<open>Only \<open>incrementRateLimitCounter\<close> writes to \<open>rate_limits\<close>.\<close>

lemma vote_for_meme_rate_limits:
  "rate_limits (snd (vote_for_meme f m u w now db)) = rate_limits db"
  by (simp add: vote_for_meme_def split: option.splits fault.splits)

lemma fallback_transaction_rate_limits:
  "rate_limits (snd (fallback_transaction io m u w db)) = rate_limits db"
  by (simp add: fallback_transaction_def meme_votes_insert_def meme_entries_increment_def
      split: option.splits fault.splits)

lemma incrementRateLimitCounter_rate_limits:
  "rate_limits (incrementRateLimitCounter env now f db request) =
     rate_limits db @
       (if f = None \<and> \<not> missing_credentials env
        then [\<lparr>rl_ip = client_key request, rl_endpoint = ''meme_vote'',
               rl_created_at = now\<rparr>]
        else [])"
  by (simp add: incrementRateLimitCounter_def rate_limits_insert_def client_key_def
      split: option.splits fault.splits)

lemma incrementRateLimitCounter_submit_rate_limits:
  "rate_limits (incrementRateLimitCounter_submit env now f db request) =
     rate_limits db @
       (if f = None \<and> \<not> missing_credentials env
        then [\<lparr>rl_ip = client_key request, rl_endpoint = ''meme_submit'',
               rl_created_at = now\<rparr>]
        else [])"
  by (simp add: incrementRateLimitCounter_submit_def rate_limits_insert_def client_key_def
      split: option.splits fault.splits)

lemma record_vote_rate_limits:
  "rate_limits (snd (record_vote env io request m u w db)) =
     rate_limits db @
       (if status (fst (record_vote env io request m u w db)) = 200
           \<and> vc_rate_insert_fault io = None \<and> \<not> missing_credentials env
        then [\<lparr>rl_ip = client_key request, rl_endpoint = ''meme_vote'',
               rl_created_at = clk_now (vc_clock io)\<rparr>]
        else [])"
proof (cases "vote_for_meme (vc_rpc_fault io) m u w (clk_now (vc_clock io)) db")
  case (Pair rep db1)
  have db1: "rate_limits db1 = rate_limits db"
    using vote_for_meme_rate_limits [of "vc_rpc_fault io" m u w "clk_now (vc_clock io)" db]
      Pair
    by simp
  show ?thesis
  proof (cases rep)
    case (Data u)
    with Pair db1 show ?thesis
      by (simp add: record_vote_def incrementRateLimitCounter_rate_limits)
  next
    case (Thrown x)
    with Pair db1 show ?thesis
      by (simp add: record_vote_def server_error_def error_response_def)
  next
    case (Err e)
    obtain ok db2 where fb: "fallback_transaction io m u w db1 = (ok, db2)"
      by (cases "fallback_transaction io m u w db1")
    have "rate_limits db2 = rate_limits db"
      using fallback_transaction_rate_limits [of io m u w db1] fb db1 by simp
    with Pair Err fb show ?thesis
      by (cases ok)
        (simp_all add: record_vote_def incrementRateLimitCounter_rate_limits
          error_response_def)
  qed
qed

lemma POST_rate_limits:
  "rate_limits (snd (POST env io db request)) =
     rate_limits db @
       (if status (fst (POST env io db request)) = 200 \<and> vc_rate_insert_fault io = None
        then [\<lparr>rl_ip = client_key request, rl_endpoint = ''meme_vote'',
               rl_created_at = clk_now (vc_clock io)\<rparr>]
        else [])"
  by (simp add: POST_def record_vote_rate_limits error_response_def server_error_def Let_def
      split: request_body.splits reply.splits)

lemma POST_submit_rate_limits:
  "rate_limits (snd (POST_submit env io db request)) =
     rate_limits db @
       (if status (fst (POST_submit env io db request)) = 201 \<and> sc_rate_insert_fault io = None
        then [\<lparr>rl_ip = client_key request, rl_endpoint = ''meme_submit'',
               rl_created_at = clk_now (sc_clock io)\<rparr>]
        else [])"
  by (simp add: POST_submit_def incrementRateLimitCounter_submit_rate_limits
      meme_entries_insert_def error_response_def server_error_def Let_def
      split: request_body.splits reply.splits option.splits fault.splits)

lemma POST_limited:
  "checkRateLimit env (clk_now (vc_clock io)) (vc_rate_check_fault io) db request \<Longrightarrow>
     POST env io db request =
       (error_response 429 ''Rate limit exceeded'' (Some ''Please try again later''), db)"
  "checkRateLimit_submit env (clk_now (sc_clock sio)) (sc_rate_check_fault sio) db request \<Longrightarrow>
     POST_submit env sio db request =
       (error_response 429 ''Rate limit exceeded'' (Some ''Please try again later''), db)"
  by (simp_all add: POST_def POST_submit_def)

lemma window_count_append:
  assumes "rate_limits db' = rate_limits db @ rows"
  shows "window_count k e since db' =
           window_count k e since db
           + length (filter (\<lambda>r. rl_ip r = k \<and> rl_endpoint r = e \<and> since \<le> rl_created_at r) rows)"
  using assms by (simp add: window_count_def)

lemma POST_window:
  assumes "vc_rate_insert_fault io = None" and "client_key request = k"
    and "since \<le> clk_now (vc_clock io)"
  shows "window_count k ''meme_vote'' since (snd (POST env io db request)) =
           window_count k ''meme_vote'' since db
           + (if status (fst (POST env io db request)) = 200 then 1 else 0)"
  using assms
  by (simp add: window_count_append [OF POST_rate_limits])

lemma POST_submit_window:
  assumes "sc_rate_insert_fault io = None" and "client_key request = k"
    and "since \<le> clk_now (sc_clock io)"
  shows "window_count k ''meme_submit'' since (snd (POST_submit env io db request)) =
           window_count k ''meme_submit'' since db
           + (if status (fst (POST_submit env io db request)) = 201 then 1 else 0)"
  using assms
  by (simp add: window_count_append [OF POST_submit_rate_limits])

lemma run_POST_window:
  assumes "list_all (\<lambda>(io, request). vc_rate_insert_fault io = None
                        \<and> client_key request = k \<and> since \<le> clk_now (vc_clock io)) calls"
  shows "window_count k ''meme_vote'' since (snd (run_POST env calls db)) =
           window_count k ''meme_vote'' since db
           + count_status 200 (fst (run_POST env calls db))"
  using assms
proof (induction calls arbitrary: db)
  case Nil
  then show ?case by (simp add: count_status_def)
next
  case (Cons call calls)
  obtain io request where call: "call = (io, request)"
    by (cases call)
  from Cons.prems call have this_call: "vc_rate_insert_fault io = None"
    "client_key request = k" "since \<le> clk_now (vc_clock io)"
    and rest: "list_all (\<lambda>(io, request). vc_rate_insert_fault io = None
                  \<and> client_key request = k \<and> since \<le> clk_now (vc_clock io)) calls"
    by simp_all
  show ?case
    using Cons.IH [OF rest, of "snd (POST env io db request)"]
      POST_window [OF this_call, of env db]
    by (simp add: call case_prod_beta count_status_def)
qed

lemma run_POST_submit_window:
  assumes "list_all (\<lambda>(io, request). sc_rate_insert_fault io = None
                        \<and> client_key request = k \<and> since \<le> clk_now (sc_clock io)) calls"
  shows "window_count k ''meme_submit'' since (snd (run_POST_submit env calls db)) =
           window_count k ''meme_submit'' since db
           + count_status 201 (fst (run_POST_submit env calls db))"
  using assms
proof (induction calls arbitrary: db)
  case Nil
  then show ?case by (simp add: count_status_def)
next
  case (Cons call calls)
  obtain io request where call: "call = (io, request)"
    by (cases call)
  from Cons.prems call have this_call: "sc_rate_insert_fault io = None"
    "client_key request = k" "since \<le> clk_now (sc_clock io)"
    and rest: "list_all (\<lambda>(io, request). sc_rate_insert_fault io = None
                  \<and> client_key request = k \<and> since \<le> clk_now (sc_clock io)) calls"
    by simp_all
  show ?case
    using Cons.IH [OF rest, of "snd (POST_submit env io db request)"]
      POST_submit_window [OF this_call, of env db]
    by (simp add: call case_prod_beta count_status_def)
qed


lemma POST_after_threshold:
  assumes "\<not> missing_credentials env"
    and "list_all (\<lambda>(io', r). vc_rate_insert_fault io' = None
                     \<and> client_key r = client_key request
                     \<and> clk_now (vc_clock io) - 3600000 \<le> clk_now (vc_clock io')) calls"
    and "vote_limit env = Some limit"
    and "limit \<le> int (count_status 200 (fst (run_POST env calls db)))"
    and "vc_rate_check_fault io = None"
  shows "POST env io (snd (run_POST env calls db)) request =
           (error_response 429 ''Rate limit exceeded'' (Some ''Please try again later''),
            snd (run_POST env calls db))"
proof -
  have "limit \<le> int (window_count (client_key request) ''meme_vote''
                        (clk_now (vc_clock io) - 3600000) (snd (run_POST env calls db)))"
    using assms(4) by (simp add: run_POST_window [OF assms(2)])
  then have "checkRateLimit env (clk_now (vc_clock io)) (vc_rate_check_fault io)
               (snd (run_POST env calls db)) request"
    by (simp add: assms(5) checkRateLimit_answered [OF assms(1)] assms(3))
  then show ?thesis
    by (rule POST_limited)
qed

lemma POST_submit_after_threshold:
  assumes "\<not> missing_credentials env"
    and "list_all (\<lambda>(io', r). sc_rate_insert_fault io' = None
                     \<and> client_key r = client_key request
                     \<and> clk_now (sc_clock io) - 3600000 \<le> clk_now (sc_clock io')) calls"
    and "submit_limit env = Some limit"
    and "limit \<le> int (count_status 201 (fst (run_POST_submit env calls db)))"
    and "sc_rate_check_fault io = None"
  shows "POST_submit env io (snd (run_POST_submit env calls db)) request =
           (error_response 429 ''Rate limit exceeded'' (Some ''Please try again later''),
            snd (run_POST_submit env calls db))"
proof -
  have "limit \<le> int (window_count (client_key request) ''meme_submit''
                        (clk_now (sc_clock io) - 3600000)
                        (snd (run_POST_submit env calls db)))"
    using assms(4) by (simp add: run_POST_submit_window [OF assms(2)])
  then have "checkRateLimit_submit env (clk_now (sc_clock io)) (sc_rate_check_fault io)
               (snd (run_POST_submit env calls db)) request"
    by (simp add: assms(5) checkRateLimit_submit_answered [OF assms(1)] assms(3))
  then show ?thesis
    by (rule POST_limited)
qed


lemma POST_status_429:
  "status (fst (POST env io db request)) = 429 \<Longrightarrow>
     checkRateLimit env (clk_now (vc_clock io)) (vc_rate_check_fault io) db request"
  by (simp add: POST_def record_vote_def error_response_def server_error_def Let_def
      split: request_body.splits reply.splits prod.splits bool.splits if_splits)

lemma POST_submit_status_429:
  "status (fst (POST_submit env io db request)) = 429 \<Longrightarrow>
     checkRateLimit_submit env (clk_now (sc_clock io)) (sc_rate_check_fault io) db request"
  by (simp add: POST_submit_def error_response_def server_error_def Let_def
      split: request_body.splits reply.splits prod.splits if_splits)

subsection \<open>The sample runs\<close>

lemmas vote_eval = POST_def checkRateLimit_def rate_limits_count_def missing_credentials_def
  falsy_opt_def falsy_def or_default_def parseInt_defaults checkUserVerification_def
  single_def record_vote_def vote_for_meme_def incrementRateLimitCounter_def
  rate_limits_insert_def sample_env_def sample_url_def sample_key_def sample_vote_call_def
  vote_request_def sample_contest_def empty_database_def sample_week Let_def

lemmas submit_eval = POST_submit_def checkRateLimit_submit_def rate_limits_count_def
  missing_credentials_def falsy_opt_def falsy_def or_default_def parseInt_defaults
  checkUserVerification_def single_def meme_entries_insert_def
  incrementRateLimitCounter_submit_def rate_limits_insert_def sample_env_def sample_url_def
  sample_key_def sample_submit_call_def submit_request_def sample_contest_def
  empty_database_def sample_week Let_def



lemma parseInt_small: "parseInt ''2'' = Some 2" "parseInt ''1'' = Some 1"
  by (simp_all add: parseInt_def strip_sign_def strip_radix_def parse_digits_def
      digit_of_def is_whitespace_def)

lemma strict_limits: "vote_limit strict_env = Some 2" "submit_limit strict_env = Some 1"
  by (simp_all add: vote_limit_def submit_limit_def strict_env_def or_default_def falsy_def
      parseInt_small)

lemma anonymous_votes_succeed:
  "count_status 200 (fst (run_POST strict_env anonymous_votes sample_contest)) = 2"
  by (simp add: strict_env_def vote_eval parseInt_small anonymous_votes_def count_status_def)

lemma anonymous_submissions_succeed:
  "count_status 201 (fst (run_POST_submit strict_env anonymous_submissions sample_contest)) = 1"
  by (simp add: strict_env_def submit_eval parseInt_small anonymous_submissions_def
      count_status_def)

lemma sample_credentials:
  "\<not> missing_credentials sample_env" "\<not> missing_credentials strict_env"
  by (simp_all add: missing_credentials_def sample_env_def strict_env_def sample_url_def
      sample_key_def falsy_opt_def falsy_def)

subsection \<open>Threshold and window\<close>




lemma sample_full_window_count:
  "window_count (client_key (vote_request (Some ''10.0.0.1'') ''m2'' ''u21'')) ''meme_vote''
     (1736337600000 - 3600000) sample_full_window = 20"
  by (simp add: window_count_def sample_full_window_def client_key_def vote_request_def
      or_default_def falsy_def empty_database_def)



subsection \<open>Failure policy and the shared key\<close>

text \<open>
  Claim C9. A rate-limit check whose store call resolves with an error or throws
  answers "not limited" in both routes, so such a request is never turned away with
  status 429.
\<close>

theorem checkRateLimit_fails_open:
  assumes "f \<noteq> None"
  shows "\<not> checkRateLimit env now f db request
       \<and> \<not> checkRateLimit_submit env now f db request
       \<and> (vc_rate_check_fault io = f \<longrightarrow> status (fst (POST env io db request)) \<noteq> 429)
       \<and> (sc_rate_check_fault sio = f \<longrightarrow>
            status (fst (POST_submit env sio db request)) \<noteq> 429)"
proof -
  have failed: "f \<noteq> None \<or> missing_credentials env"
    using assms by simp
  have open_vote: "\<not> checkRateLimit env t f db request" for t
    using failed by (rule checkRateLimit_failed)
  have open_submit: "\<not> checkRateLimit_submit env t f db request" for t
    using failed by (rule checkRateLimit_failed)
  show ?thesis
    using open_vote open_submit
      POST_status_429 [where env = env and io = io and db = db and request = request]
      POST_submit_status_429
        [where env = env and io = sio and db = db and request = request]
    by auto
qed

theorem checkRateLimit_fails_open_witness:
  "checkRateLimit sample_env 1736337600000 None sample_full_window
     (vote_request (Some ''10.0.0.1'') ''m2'' ''u21'')
   \<and> \<not> checkRateLimit sample_env 1736337600000
         (Some (ErrorResult \<lparr>err_code = ''57014'', err_message = ''timeout''\<rparr>))
         sample_full_window (vote_request (Some ''10.0.0.1'') ''m2'' ''u21'')
   \<and> \<not> checkRateLimit_submit sample_env 1736337600000 (Some (Exception ''fetch failed''))
         sample_full_window (vote_request (Some ''10.0.0.1'') ''m2'' ''u21'')
   \<and> status (fst (POST sample_env
                    (sample_vote_call\<lparr>vc_rate_check_fault := Some (Exception ''fetch failed'')\<rparr>)
                    sample_full_window (vote_request (Some ''10.0.0.1'') ''m2'' ''u21'')))
       \<noteq> 429"
proof -
  have limit: "vote_limit sample_env = Some 20"
    by (simp add: default_limits sample_env_def)
  have limited: "checkRateLimit sample_env 1736337600000 None sample_full_window
     (vote_request (Some ''10.0.0.1'') ''m2'' ''u21'')"
    using sample_full_window_count
    by (simp add: checkRateLimit_answered [OF sample_credentials(1)] limit)
  have faults: "Some (ErrorResult \<lparr>err_code = ''57014'', err_message = ''timeout''\<rparr>) \<noteq> None"
    "Some (Exception ''fetch failed'') \<noteq> None"
    by simp_all
  show ?thesis
    using limited
      checkRateLimit_fails_open
        [OF faults(1), where env = sample_env and now = 1736337600000
          and db = sample_full_window
          and request = "vote_request (Some ''10.0.0.1'') ''m2'' ''u21''"]
      checkRateLimit_fails_open
        [OF faults(2), where env = sample_env and now = 1736337600000
          and db = sample_full_window
          and request = "vote_request (Some ''10.0.0.1'') ''m2'' ''u21''"
          and io = "sample_vote_call\<lparr>vc_rate_check_fault := Some (Exception ''fetch failed'')\<rparr>"]
    by simp
qed

lemma client_key_unknown: "falsy_opt (req_ip request) \<Longrightarrow> client_key request = ''unknown''"
  by (simp add: client_key_def or_default_def falsy_opt_def split: option.splits)

lemma client_key_literal: "client_key (request\<lparr>req_ip := Some ''unknown''\<rparr>) = ''unknown''"
  by (simp add: client_key_def or_default_def falsy_def)

lemma checkRateLimit_key:
  "client_key r1 = client_key r2 \<Longrightarrow> checkRateLimit env now f db r1 = checkRateLimit env now f db r2"
  "client_key r1 = client_key r2 \<Longrightarrow>
     checkRateLimit_submit env now f db r1 = checkRateLimit_submit env now f db r2"
  by (simp_all add: checkRateLimit_def checkRateLimit_submit_def client_key_def)

lemma incrementRateLimitCounter_key:
  "client_key r1 = client_key r2 \<Longrightarrow>
     incrementRateLimitCounter env now f db r1 = incrementRateLimitCounter env now f db r2"
  "client_key r1 = client_key r2 \<Longrightarrow>
     incrementRateLimitCounter_submit env now f db r1
       = incrementRateLimitCounter_submit env now f db r2"
  by (simp_all add: incrementRateLimitCounter_def incrementRateLimitCounter_submit_def
      client_key_def)

lemma anonymous_calls:
  assumes "list_all (\<lambda>(io', r). P io' \<and> falsy_opt (req_ip r) \<and> Q io') calls"
    and "falsy_opt (req_ip request)"
  shows "list_all (\<lambda>(io', r). P io' \<and> client_key r = client_key request \<and> Q io') calls"
  using assms by (auto simp add: list_all_iff client_key_unknown)

text \<open>
  Claim C10. A request without a client address (\<open>request.ip\<close> absent or empty) is
  checked and recorded under the key \<open>unknown\<close>, exactly as a request whose address
  is that literal. All such requests therefore draw on one budget per endpoint: once
  requests without an address, whoever sent them, have succeeded as often as the
  threshold within the hour, the next request without an address gets 429.
\<close>

theorem missing_ip_shares_unknown_key:
  assumes "falsy_opt (req_ip request)"
  shows "client_key request = ''unknown''
       \<and> checkRateLimit env now f db request
           = checkRateLimit env now f db (request\<lparr>req_ip := Some ''unknown''\<rparr>)
       \<and> checkRateLimit_submit env now f db request
           = checkRateLimit_submit env now f db (request\<lparr>req_ip := Some ''unknown''\<rparr>)
       \<and> incrementRateLimitCounter env now f db request
           = incrementRateLimitCounter env now f db (request\<lparr>req_ip := Some ''unknown''\<rparr>)
       \<and> incrementRateLimitCounter_submit env now f db request
           = incrementRateLimitCounter_submit env now f db
               (request\<lparr>req_ip := Some ''unknown''\<rparr>)
       \<and> (\<not> missing_credentials env \<longrightarrow>
            rate_limits (incrementRateLimitCounter env now None db request)
            = rate_limits db @
                [\<lparr>rl_ip = ''unknown'', rl_endpoint = ''meme_vote'', rl_created_at = now\<rparr>])
       \<and> (\<not> missing_credentials env \<longrightarrow>
            rate_limits (incrementRateLimitCounter_submit env now None db request)
            = rate_limits db @
                [\<lparr>rl_ip = ''unknown'', rl_endpoint = ''meme_submit'', rl_created_at = now\<rparr>])
       \<and> (\<not> missing_credentials env
            \<and> list_all (\<lambda>(io', r). vc_rate_insert_fault io' = None
                          \<and> falsy_opt (req_ip r)
                          \<and> clk_now (vc_clock io) - 3600000 \<le> clk_now (vc_clock io')) calls
            \<and> vote_limit env = Some limit
            \<and> limit \<le> int (count_status 200 (fst (run_POST env calls db)))
            \<and> vc_rate_check_fault io = None
          \<longrightarrow> fst (POST env io (snd (run_POST env calls db)) request) = rate_limited)
       \<and> (\<not> missing_credentials env
            \<and> list_all (\<lambda>(io', r). sc_rate_insert_fault io' = None
                          \<and> falsy_opt (req_ip r)
                          \<and> clk_now (sc_clock sio) - 3600000 \<le> clk_now (sc_clock io')) scalls
            \<and> submit_limit env = Some slimit
            \<and> slimit \<le> int (count_status 201 (fst (run_POST_submit env scalls db)))
            \<and> sc_rate_check_fault sio = None
          \<longrightarrow> fst (POST_submit env sio (snd (run_POST_submit env scalls db)) request)
                = rate_limited)"
proof -
  note key = client_key_unknown [OF assms]
  have same: "client_key request = client_key (request\<lparr>req_ip := Some ''unknown''\<rparr>)"
    by (simp add: key client_key_literal)
  have vote_run: "fst (POST env io (snd (run_POST env calls db)) request) = rate_limited"
    if "\<not> missing_credentials env"
      and "list_all (\<lambda>(io', r). vc_rate_insert_fault io' = None
                          \<and> falsy_opt (req_ip r)
                          \<and> clk_now (vc_clock io) - 3600000 \<le> clk_now (vc_clock io')) calls"
      and "vote_limit env = Some limit"
      and "limit \<le> int (count_status 200 (fst (run_POST env calls db)))"
      and "vc_rate_check_fault io = None"
    using POST_after_threshold [OF that(1) anonymous_calls [OF that(2) assms] that(3-5)]
    by (simp add: rate_limited_def)
  have submit_run:
    "fst (POST_submit env sio (snd (run_POST_submit env scalls db)) request) = rate_limited"
    if "\<not> missing_credentials env"
      and "list_all (\<lambda>(io', r). sc_rate_insert_fault io' = None
                          \<and> falsy_opt (req_ip r)
                          \<and> clk_now (sc_clock sio) - 3600000 \<le> clk_now (sc_clock io')) scalls"
      and "submit_limit env = Some slimit"
      and "slimit \<le> int (count_status 201 (fst (run_POST_submit env scalls db)))"
      and "sc_rate_check_fault sio = None"
    using POST_submit_after_threshold
      [OF that(1) anonymous_calls [OF that(2) assms] that(3-5)]
    by (simp add: rate_limited_def)
  show ?thesis
    using key checkRateLimit_key [OF same] incrementRateLimitCounter_key [OF same]
      incrementRateLimitCounter_rate_limits
        [where env = env and now = now and f = None and db = db and request = request]
      incrementRateLimitCounter_submit_rate_limits
        [where env = env and now = now and f = None and db = db and request = request]
      vote_run submit_run
    by simp
qed

lemma anonymous_votes_in_window:
  "list_all (\<lambda>(io', r). vc_rate_insert_fault io' = None \<and> falsy_opt (req_ip r)
               \<and> clk_now (vc_clock sample_vote_call) - 3600000 \<le> clk_now (vc_clock io'))
     anonymous_votes"
  by (simp add: anonymous_votes_def sample_vote_call_def vote_request_def falsy_opt_def
      falsy_def)

lemma anonymous_submissions_in_window:
  "list_all (\<lambda>(io', r). sc_rate_insert_fault io' = None \<and> falsy_opt (req_ip r)
               \<and> clk_now (sc_clock sample_submit_call) - 3600000 \<le> clk_now (sc_clock io'))
     anonymous_submissions"
  by (simp add: anonymous_submissions_def sample_submit_call_def submit_request_def
      falsy_opt_def falsy_def)

theorem missing_ip_shares_unknown_key_witness:
  "client_key (vote_request None ''m1'' ''carol'') = ''unknown''
   \<and> fst (POST strict_env sample_vote_call
            (snd (run_POST strict_env anonymous_votes sample_contest))
            (vote_request None ''m1'' ''carol'')) = rate_limited
   \<and> fst (POST_submit strict_env sample_submit_call
            (snd (run_POST_submit strict_env anonymous_submissions sample_contest))
            (vote_request None ''m1'' ''carol'')) = rate_limited"
proof -
  have absent: "falsy_opt (req_ip (vote_request None ''m1'' ''carol''))"
    by (simp add: vote_request_def falsy_opt_def)
  have faults: "vc_rate_check_fault sample_vote_call = None"
    "sc_rate_check_fault sample_submit_call = None"
    by (simp_all add: sample_vote_call_def sample_submit_call_def)
  show ?thesis
    using missing_ip_shares_unknown_key
        [OF absent, where env = strict_env and io = sample_vote_call
          and calls = anonymous_votes and limit = 2 and db = sample_contest
          and sio = sample_submit_call and scalls = anonymous_submissions and slimit = 1]
      sample_credentials(2) anonymous_votes_in_window anonymous_submissions_in_window
      strict_limits faults
    by (simp add: anonymous_votes_succeed anonymous_submissions_succeed)
qed

subsection \<open>The two-phase fallback\<close>

lemma fallback_transaction_increment_failed:
  assumes "vc_vote_insert_fault io = None" and "vc_update_fault io \<noteq> None"
  shows "fallback_transaction io m u w db =
           (False,
            db\<lparr>meme_votes := meme_votes db @
                 [\<lparr>mv_user = u, mv_meme_id = m, mv_week = w,
                   mv_created_at = clk_now (vc_clock io),
                   mv_request_id = vc_requestId io\<rparr>]\<rparr>)"
  using assms
  by (auto simp add: fallback_transaction_def meme_votes_insert_def
      meme_entries_increment_def split: option.splits fault.splits)

lemma record_vote_increment_failed:
  assumes "vc_rpc_fault io = Some (ErrorResult e)"
    and "vc_vote_insert_fault io = None" and "vc_update_fault io \<noteq> None"
  shows "record_vote env io request m u w db =
           (failed_to_record,
            db\<lparr>meme_votes := meme_votes db @
                 [\<lparr>mv_user = u, mv_meme_id = m, mv_week = w,
                   mv_created_at = clk_now (vc_clock io),
                   mv_request_id = vc_requestId io\<rparr>]\<rparr>)"
  using assms(1)
  by (simp add: record_vote_def vote_for_meme_def failed_to_record_def
      fallback_transaction_increment_failed [OF assms(2,3)])

lemma POST_increment_failed:
  assumes "vc_rpc_fault io = Some (ErrorResult e)"
    and "vc_vote_insert_fault io = None" and "vc_update_fault io \<noteq> None"
  shows "status (fst (POST env io db request)) \<noteq> 200"
  by (simp add: POST_def record_vote_increment_failed [OF assms] failed_to_record_def
      error_response_def server_error_def Let_def
      split: request_body.splits reply.splits)

lemma fallback_call_vote:
  "POST sample_env fallback_call sample_contest (vote_request (Some ''10.0.0.1'') ''m1'' ''alice'')
   = (failed_to_record,
      sample_contest
        \<lparr>meme_votes :=
           [\<lparr>mv_user = ''alice'', mv_meme_id = ''m1'', mv_week = 1,
             mv_created_at = clk_now sample_clock, mv_request_id = ''req-1''\<rparr>]\<rparr>)"
  by (simp add: fallback_call_def POST_def checkRateLimit_def rate_limits_count_def
      missing_credentials_def falsy_opt_def falsy_def or_default_def parseInt_defaults
      checkUserVerification_def single_def record_vote_def vote_for_meme_def
      fallback_transaction_def meme_votes_insert_def meme_entries_increment_def
      sample_env_def sample_url_def sample_key_def sample_vote_call_def vote_request_def
      sample_contest_def empty_database_def sample_week Let_def failed_to_record_def)

text \<open>
  Claim C2 fails as stated: with the procedure call failing, the vote row inserted and
  the increment failing, the response is the failure 500, not a success.
\<close>

theorem fallback_increment_failure_is_reported:
  "vc_vote_insert_fault fallback_call = None
   \<and> vc_update_fault fallback_call = Some (ErrorResult sample_store_error)
   \<and> fst (POST sample_env fallback_call sample_contest
            (vote_request (Some ''10.0.0.1'') ''m1'' ''alice'')) = failed_to_record
   \<and> status failed_to_record = 500
   \<and> map mv_user
         (meme_votes (snd (POST sample_env fallback_call sample_contest
                             (vote_request (Some ''10.0.0.1'') ''m1'' ''alice''))))
       = [''alice'']"
  by (simp add: fallback_call_vote)
    (simp add: fallback_call_def sample_vote_call_def failed_to_record_def
      error_response_def)

text \<open>
  Claim C2, amended. In the two-phase fallback, entered when the procedure call
  resolves with an error, a vote row that was inserted stays inserted when the
  increment of the counter then fails (by an error or an exception), but the operation
  reports the failure: the response is 500 "Failed to record vote". No request handled
  with these answers of the store gets a success, and no rate-limit record is written.
\<close>

theorem fallback_increment_failure:
  assumes "vc_rpc_fault io = Some (ErrorResult e)"
    and "vc_vote_insert_fault io = None"
    and "vc_update_fault io \<noteq> None"
  shows "record_vote env io request m u w db =
           (failed_to_record,
            db\<lparr>meme_votes := meme_votes db @
                 [\<lparr>mv_user = u, mv_meme_id = m, mv_week = w,
                   mv_created_at = clk_now (vc_clock io),
                   mv_request_id = vc_requestId io\<rparr>]\<rparr>)
       \<and> status failed_to_record = 500
       \<and> res_error failed_to_record = Some ''Failed to record vote''
       \<and> status (fst (POST env io db request)) \<noteq> 200
       \<and> rate_limits (snd (POST env io db request)) = rate_limits db"
  using record_vote_increment_failed [OF assms, where env = env and request = request
      and m = m and u = u and w = w and db = db]
    POST_increment_failed [OF assms, where env = env and db = db and request = request]
    POST_rate_limits [where env = env and io = io and db = db and request = request]
  by (simp add: failed_to_record_def error_response_def)

theorem fallback_increment_failure_witness:
  "record_vote sample_env fallback_call (vote_request (Some ''10.0.0.1'') ''m1'' ''alice'')
     ''m1'' ''alice'' 1 sample_contest =
     (failed_to_record,
      sample_contest
        \<lparr>meme_votes :=
           [\<lparr>mv_user = ''alice'', mv_meme_id = ''m1'', mv_week = 1,
             mv_created_at = clk_now sample_clock, mv_request_id = ''req-1''\<rparr>]\<rparr>)
   \<and> status (fst (POST sample_env fallback_call sample_contest
                    (vote_request (Some ''10.0.0.1'') ''m1'' ''alice''))) \<noteq> 200
   \<and> rate_limits (snd (POST sample_env fallback_call sample_contest
                          (vote_request (Some ''10.0.0.1'') ''m1'' ''alice''))) = []"
proof -
  have faults: "vc_rpc_fault fallback_call =
      Some (ErrorResult \<lparr>err_code = ''PGRST202'', err_message = ''function not found''\<rparr>)"
    "vc_vote_insert_fault fallback_call = None" "vc_update_fault fallback_call \<noteq> None"
    by (simp_all add: fallback_call_def sample_vote_call_def)
  have call: "clk_now (vc_clock fallback_call) = clk_now sample_clock"
    "vc_requestId fallback_call = ''req-1''"
    by (simp_all add: fallback_call_def sample_vote_call_def)
  have tables: "meme_votes sample_contest = []" "rate_limits sample_contest = []"
    by (simp_all add: sample_contest_def empty_database_def)
  show ?thesis
    using fallback_increment_failure [OF faults, where env = sample_env
        and request = "vote_request (Some ''10.0.0.1'') ''m1'' ''alice''"
        and m = "''m1''" and u = "''alice''" and w = 1 and db = sample_contest]
    by (simp add: call tables)
qed

subsection \<open>Verification gate\<close>

lemma voter_of_body:
  assumes "voter_of request = Some u"
  obtains body where "req_json request = Body body" "\<not> falsy_opt (b_id body)"
    "b_userId body = Some u" "u \<noteq> []"
  using assms
  by (auto simp add: voter_of_def falsy_opt_def falsy_def
      split: request_body.splits if_splits option.splits)

lemma checkRateLimit_rate_limits:
  "rate_limits db1 = rate_limits db2 \<Longrightarrow>
     checkRateLimit env now f db1 request = checkRateLimit env now f db2 request"
  by (simp add: checkRateLimit_def rate_limits_count_def split: option.splits fault.splits)

lemma checkUserVerification_verified_users:
  "verified_users db1 = verified_users db2 \<Longrightarrow>
     checkUserVerification env f db1 u = checkUserVerification env f db2 u"
  by (simp add: checkUserVerification_def)

lemma checkUserVerification_no_record:
  assumes "REQUIRE_MPESA_VERIFICATION env = Some ''true''"
    and "filter (\<lambda>r. vu_user_id r = Some u) (verified_users db) = []"
  shows "\<not> checkUserVerification env f db u"
  using assms
  by (simp add: checkUserVerification_def single_def split: option.splits fault.splits)

lemma checkUserVerification_not_required:
  "REQUIRE_MPESA_VERIFICATION env \<noteq> Some ''true'' \<Longrightarrow> checkUserVerification env f db u"
  by (simp add: checkUserVerification_def)

lemma POST_not_verified:
  assumes "\<not> checkRateLimit env (clk_now (vc_clock io)) (vc_rate_check_fault io) db request"
    and "voter_of request = Some u"
    and "\<not> checkUserVerification env (vc_verification_fault io) db u"
  shows "POST env io db request = (not_verified, db)"
proof -
  from assms(2) obtain body where "req_json request = Body body" "\<not> falsy_opt (b_id body)"
    "b_userId body = Some u" "u \<noteq> []"
    by (rule voter_of_body)
  with assms(1,3) show ?thesis
    by (simp add: POST_def or_default_def falsy_opt_def falsy_def not_verified_def)
qed

text \<open>
  Claim C5 fails as stated: verification is required only when the environment
  variable \<open>REQUIRE_MPESA_VERIFICATION\<close> is \<open>true\<close>. Without it a voter with no
  verified-user record votes successfully.
\<close>

theorem unverified_voter_accepted_by_default:
  "REQUIRE_MPESA_VERIFICATION sample_env = None
   \<and> verified_users sample_contest = []
   \<and> fst (POST sample_env sample_vote_call sample_contest
            (vote_request (Some ''10.0.0.1'') ''m1'' ''alice''))
       = \<lparr>status = 200, res_error = None,
          res_message = Some ''Vote recorded successfully'', res_id = Some ''m1'',
          res_week = Some 1\<rparr>
   \<and> map mv_user
         (meme_votes (snd (POST sample_env sample_vote_call sample_contest
                             (vote_request (Some ''10.0.0.1'') ''m1'' ''alice''))))
       = [''alice'']"
  by (simp add: vote_eval)

text \<open>
  Claim C5, amended. When \<open>REQUIRE_MPESA_VERIFICATION\<close> is \<open>true\<close>, a vote request
  that is not rate-limited and whose body names a meme and a voter is answered 403
  "User not verified" if no verified-user record has the voter's id. The tables are
  left as they were, and the answer is the same whatever the vote and entry tables
  hold: no vote state is read or written. When the variable has any other value the
  lookup is skipped and every voter counts as verified.
\<close>

theorem unverified_voter_rejected_when_required:
  assumes "REQUIRE_MPESA_VERIFICATION env = Some ''true''"
    and "\<not> checkRateLimit env (clk_now (vc_clock io)) (vc_rate_check_fault io) db request"
    and "voter_of request = Some u"
    and "filter (\<lambda>r. vu_user_id r = Some u) (verified_users db) = []"
  shows "POST env io db request = (not_verified, db)
       \<and> status not_verified = 403
       \<and> POST env io (db\<lparr>meme_votes := votes, meme_entries := entries\<rparr>) request
           = (not_verified, db\<lparr>meme_votes := votes, meme_entries := entries\<rparr>)
       \<and> (REQUIRE_MPESA_VERIFICATION env' \<noteq> Some ''true'' \<longrightarrow>
            checkUserVerification env' f db u)"
proof -
  let ?db = "db\<lparr>meme_votes := votes, meme_entries := entries\<rparr>"
  have no_record: "\<not> checkUserVerification env (vc_verification_fault io) db u"
    using assms(1,4) by (rule checkUserVerification_no_record)
  have "checkRateLimit env (clk_now (vc_clock io)) (vc_rate_check_fault io) ?db request
          = checkRateLimit env (clk_now (vc_clock io)) (vc_rate_check_fault io) db request"
    by (rule checkRateLimit_rate_limits) simp
  with assms(2)
  have gate: "\<not> checkRateLimit env (clk_now (vc_clock io)) (vc_rate_check_fault io) ?db
                  request"
    by simp
  have "checkUserVerification env (vc_verification_fault io) ?db u
          = checkUserVerification env (vc_verification_fault io) db u"
    by (rule checkUserVerification_verified_users) simp
  with no_record
  have no_record': "\<not> checkUserVerification env (vc_verification_fault io) ?db u"
    by simp
  show ?thesis
    using POST_not_verified [OF assms(2,3) no_record]
      POST_not_verified [OF gate assms(3) no_record']
      checkUserVerification_not_required [where env = env' and f = f and db = db and u = u]
    by (simp add: not_verified_def error_response_def)
qed

theorem unverified_voter_rejected_when_required_witness:
  "POST (sample_env\<lparr>REQUIRE_MPESA_VERIFICATION := Some ''true''\<rparr>) sample_vote_call
     sample_contest (vote_request (Some ''10.0.0.1'') ''m1'' ''alice'')
     = (not_verified, sample_contest)
   \<and> status not_verified = 403
   \<and> checkUserVerification sample_env None sample_contest ''alice''"
proof -
  let ?env = "sample_env\<lparr>REQUIRE_MPESA_VERIFICATION := Some ''true''\<rparr>"
  have required: "REQUIRE_MPESA_VERIFICATION ?env = Some ''true''"
    by simp
  have gate: "\<not> checkRateLimit ?env (clk_now (vc_clock sample_vote_call))
                 (vc_rate_check_fault sample_vote_call) sample_contest
                 (vote_request (Some ''10.0.0.1'') ''m1'' ''alice'')"
    by (simp add: vote_eval)
  have voter: "voter_of (vote_request (Some ''10.0.0.1'') ''m1'' ''alice'') = Some ''alice''"
    by (simp add: voter_of_def vote_request_def falsy_opt_def falsy_def)
  have no_record: "filter (\<lambda>r. vu_user_id r = Some ''alice'') (verified_users sample_contest)
                     = []"
    by (simp add: sample_contest_def empty_database_def)
  have optional: "REQUIRE_MPESA_VERIFICATION sample_env \<noteq> Some ''true''"
    by (simp add: sample_env_def)
  show ?thesis
    using unverified_voter_rejected_when_required
        [OF required gate voter no_record, where env' = sample_env and f = None]
      optional
    by simp
qed

subsection \<open>One vote per voter and week\<close>












lemma votes_of_other_week:
  assumes "meme_votes db' = meme_votes db @ [row]" and "mv_week row \<noteq> w"
  shows "votes_of u w db' = votes_of u w db"
  using assms by (simp add: votes_of_def)














end
